theory Spec2Isabelle
  imports Complex_Main "HOL-Library.Word" "HOL-Library.Log_Nat"
begin

section \<open>Numbers\<close>

text \<open>
  Go's \<open>int\<close> is taken at its 64-bit width: a word whose signed reading is \<open>sint\<close> and
  whose addition wraps around. A \<open>float64\<close> is the rational number it denotes; infinities,
  NaN and the sign of zero do not occur in this program's arithmetic and are left out.
\<close>

type_synonym go_int = "64 word"
type_synonym float64 = rat

definition round_half_even :: "rat \<Rightarrow> int" where
  "round_half_even x =
     (let f = \<lfloor>x\<rfloor>; d = x - of_int f
      in if d < 1 / 2 then f
         else if 1 / 2 < d then f + 1
         else if even f then f else f + 1)"

definition ilog2 :: "rat \<Rightarrow> int" where
  \<comment> \<open>for \<open>0 < q\<close>: the integer \<open>k\<close> with \<open>2^k \<le> q < 2^(k+1)\<close>\<close>
  "ilog2 q = (if 1 \<le> q then bitlen \<lfloor>q\<rfloor> - 1 else - bitlen (\<lceil>1 / q\<rceil> - 1))"

definition pow2 :: "int \<Rightarrow> rat" where
  "pow2 e = (if 0 \<le> e then 2 ^ nat e else 1 / 2 ^ nat (- e))"

definition f64_round :: "rat \<Rightarrow> float64" where
  \<comment> \<open>IEEE 754 binary64, round to nearest, ties to even: 53 significant bits
      (normal range; every value this program computes lies in it)\<close>
  "f64_round q =
     (if q = 0 then 0
      else let u = pow2 (ilog2 \<bar>q\<bar> - 52)
           in sgn q * of_int (round_half_even (\<bar>q\<bar> / u)) * u)"

definition f64_add :: "float64 \<Rightarrow> float64 \<Rightarrow> float64" where
  "f64_add a b = f64_round (a + b)"

definition f64_mul :: "float64 \<Rightarrow> float64 \<Rightarrow> float64" where
  "f64_mul a b = f64_round (a * b)"

definition f64_div :: "float64 \<Rightarrow> float64 \<Rightarrow> float64" where
  "f64_div a b = f64_round (a / b)"

definition f64_of_int :: "int \<Rightarrow> float64" where
  \<comment> \<open>the conversion \<open>float64(n)\<close> of an integer\<close>
  "f64_of_int n = f64_round (of_int n)"

definition math_Pow :: "float64 \<Rightarrow> nat \<Rightarrow> float64" where
  \<comment> \<open>\<open>math.Pow(x, n)\<close> at a natural exponent: the float64 nearest the exact power\<close>
  "math_Pow x n = f64_round (x ^ n)"

definition go_truncate :: "rat \<Rightarrow> int" where
  \<comment> \<open>the integer part, rounding toward zero\<close>
  "go_truncate q = (if 0 \<le> q then \<lfloor>q\<rfloor> else \<lceil>q\<rceil>)"

definition f64_to_int :: "(float64 \<Rightarrow> go_int) \<Rightarrow> float64 \<Rightarrow> go_int" where
  \<comment> \<open>the conversion \<open>int(x)\<close>: the fraction is discarded; a value that does not fit is
      converted as the platform chooses (\<open>oor\<close>)\<close>
  "f64_to_int oor x =
     (let t = go_truncate x
      in if - (2 ^ 63) \<le> t \<and> t < 2 ^ 63 then word_of_int t else oor x)"

text \<open>
  \<open>retryDelay\<close>: \<open>math.Pow(float64(count), 4) + 15 + (float64(rand.Intn(30)) * (float64(count) + 1))\<close>.
  The drawn integer \<open>rand.Intn(30)\<close> is the argument \<open>r\<close>.
\<close>

definition retryDelay :: "go_int \<Rightarrow> int \<Rightarrow> float64" where
  "retryDelay count r =
     f64_add (f64_add (math_Pow (f64_of_int (sint count)) 4) 15)
             (f64_mul (f64_of_int r) (f64_add (f64_of_int (sint count)) 1))"

section \<open>JSON documents and dynamic values\<close>

text \<open>
  The textual layer of \<open>encoding/json\<close> (lexing and printing) is a parameter of the model
  (\<open>json_parse\<close>, \<open>json_print\<close> below); what the program's struct tags decide is modelled on
  the document tree. A number is an integer literal (\<open>JInt\<close>, digits only) or a literal with
  a fraction or an exponent (\<open>JFrac\<close>), each with its exact value: only an integer literal
  fits an \<open>int\<close> field. An object keeps its members in order, duplicates included.
\<close>

datatype json =
    JNull
  | JBool bool
  | JInt int
  | JFrac rat
  | JString string
  | JArray "json list"
  | JObject "(string \<times> json) list"

text \<open>
  The values an \<open>interface{}\<close> holds after decoding: \<open>nil\<close>, \<open>bool\<close>, \<open>float64\<close>,
  \<open>string\<close>, \<open>[]interface{}\<close> and \<open>map[string]interface{}\<close> (a map is represented by its
  member list).
\<close>

datatype dyn =
    DNil
  | DBool bool
  | DFloat float64
  | DString string
  | DSlice "dyn list"
  | DMap "(string \<times> dyn) list"

text \<open>A number literal read as \<open>float64\<close>; a literal beyond the float64 range is an error.\<close>

definition f64_parse :: "rat \<Rightarrow> float64 option" where
  "f64_parse q = (let v = f64_round q in if \<bar>v\<bar> < 2 ^ 1024 then Some v else None)"

fun to_dyn :: "json \<Rightarrow> dyn option" where
  "to_dyn JNull = Some DNil"
| "to_dyn (JBool b) = Some (DBool b)"
| "to_dyn (JInt i) = map_option DFloat (f64_parse (of_int i))"
| "to_dyn (JFrac q) = map_option DFloat (f64_parse q)"
| "to_dyn (JString s) = Some (DString s)"
| "to_dyn (JArray xs) = map_option DSlice (those (map to_dyn xs))"
| "to_dyn (JObject ms) =
     map_option DMap (those (map (\<lambda>(k, v). map_option (Pair k) (to_dyn v)) ms))"

text \<open>
  Marshalling a dynamic value. A float64 is printed with digits only when it is integral
  and below \<open>10^21\<close> in magnitude, otherwise with a fraction or an exponent.
\<close>

fun of_dyn :: "dyn \<Rightarrow> json" where
  "of_dyn DNil = JNull"
| "of_dyn (DBool b) = JBool b"
| "of_dyn (DFloat x) = (if of_int \<lfloor>x\<rfloor> = x \<and> \<bar>x\<bar> < 10 ^ 21 then JInt \<lfloor>x\<rfloor> else JFrac x)"
| "of_dyn (DString s) = JString s"
| "of_dyn (DSlice xs) = JArray (map of_dyn xs)"
| "of_dyn (DMap ms) = JObject (map (\<lambda>(k, v). (k, of_dyn v)) ms)"

text \<open>A dynamic value whose numbers are float64 values.\<close>

fun dyn_ok :: "dyn \<Rightarrow> bool" where
  "dyn_ok (DFloat x) = (f64_parse x = Some x)"
| "dyn_ok (DSlice xs) = list_all dyn_ok xs"
| "dyn_ok (DMap ms) = list_all (\<lambda>(k, v). dyn_ok v) ms"
| "dyn_ok _ = True"



section \<open>Library and platform\<close>

text \<open>
  A time is its count of nanoseconds since the Unix epoch. An error value is its dynamic
  type as \<open>%T\<close> prints it and its message \<open>Error()\<close>. The record \<open>golib\<close> collects what the
  program takes from Go's library and platform: the JSON text layer, the result of an
  out-of-range float-to-int conversion, the message of \<open>fmt.Errorf(s)\<close>, and the formatting
  of times.
\<close>

type_synonym go_time = int

record go_error =
  etype :: string
  emsg :: string

record golib =
  json_parse :: "string \<Rightarrow> go_error + json"
  json_print :: "json \<Rightarrow> string"
  conv_oor :: "float64 \<Rightarrow> go_int"
  Errorf :: "string \<Rightarrow> string"
  time_Format :: "string \<Rightarrow> go_time \<Rightarrow> string"
  time_String :: "go_time \<Rightarrow> string"

section \<open>Job codec\<close>

record Job =
  Type :: string
  Args :: "dyn list option"
  Queue :: string
  ID :: string
  Retry :: dyn
  MaxRetries :: go_int
  RetryCount :: go_int
  ErrorMessage :: string
  ErrorType :: string
  RetriedAt :: string
  FailedAt :: string
  StartTime :: go_time

definition zero_time :: go_time where
  "zero_time = - 62135596800 * 1000000000"

definition zero_Job :: Job where
  "zero_Job = \<lparr>Type = '''', Args = None, Queue = '''', ID = '''', Retry = DNil,
     MaxRetries = 0, RetryCount = 0, ErrorMessage = '''', ErrorType = '''',
     RetriedAt = '''', FailedAt = '''', StartTime = zero_time\<rparr>"

definition TimestampFormat :: string where
  "TimestampFormat = ''2006-01-02 15:04:05 MST''"

definition defaultMaxRetries :: go_int where
  "defaultMaxRetries = 25"

definition keyExpiry :: nat where
  "keyExpiry = 86400"

text \<open>
  \<open>json.Unmarshal\<close> into the struct: the members are taken in order; a key selects the
  field whose tag it equals up to (ASCII) letter case; fields tagged \<open>-\<close> are never
  selected; \<open>null\<close> leaves a string or integer field unchanged and resets a slice or an
  interface; a value of the wrong kind is an \<open>UnmarshalTypeError\<close> (its message is
  abbreviated here).
\<close>

definition UnmarshalTypeError :: go_error where
  "UnmarshalTypeError = \<lparr>etype = ''*json.UnmarshalTypeError'', emsg = ''json: cannot unmarshal''\<rparr>"

definition ascii_lower :: "char \<Rightarrow> char" where
  "ascii_lower c =
     (let n = (of_char c :: nat) in if 65 \<le> n \<and> n \<le> 90 then char_of (n + 32) else c)"

definition key_is :: "string \<Rightarrow> string \<Rightarrow> bool" where
  "key_is k name = (map ascii_lower k = name)"

fun decode_string :: "json \<Rightarrow> string \<Rightarrow> go_error + string" where
  "decode_string JNull cur = Inr cur"
| "decode_string (JString s) cur = Inr s"
| "decode_string _ cur = Inl UnmarshalTypeError"

fun decode_int :: "json \<Rightarrow> go_int \<Rightarrow> go_error + go_int" where
  "decode_int JNull cur = Inr cur"
| "decode_int (JInt i) cur =
     (if - (2 ^ 63) \<le> i \<and> i < 2 ^ 63 then Inr (word_of_int i) else Inl UnmarshalTypeError)"
| "decode_int _ cur = Inl UnmarshalTypeError"

fun decode_slice :: "json \<Rightarrow> dyn list option \<Rightarrow> go_error + dyn list option" where
  "decode_slice JNull cur = Inr None"
| "decode_slice (JArray xs) cur =
     (case those (map to_dyn xs) of None \<Rightarrow> Inl UnmarshalTypeError | Some ds \<Rightarrow> Inr (Some ds))"
| "decode_slice _ cur = Inl UnmarshalTypeError"

definition decode_iface :: "json \<Rightarrow> go_error + dyn" where
  "decode_iface v = (case to_dyn v of None \<Rightarrow> Inl UnmarshalTypeError | Some d \<Rightarrow> Inr d)"

definition set_member :: "Job \<Rightarrow> string \<times> json \<Rightarrow> go_error + Job" where
  "set_member job kv =
     (let k = fst kv; v = snd kv in
      if key_is k ''class'' then map_sum id (\<lambda>s. job\<lparr>Type := s\<rparr>) (decode_string v (Type job))
      else if key_is k ''args'' then map_sum id (\<lambda>a. job\<lparr>Args := a\<rparr>) (decode_slice v (Args job))
      else if key_is k ''queue'' then map_sum id (\<lambda>s. job\<lparr>Queue := s\<rparr>) (decode_string v (Queue job))
      else if key_is k ''jid'' then map_sum id (\<lambda>s. job\<lparr>ID := s\<rparr>) (decode_string v (ID job))
      else if key_is k ''retry'' then map_sum id (\<lambda>d. job\<lparr>Retry := d\<rparr>) (decode_iface v)
      else if key_is k ''retry_count'' then
        map_sum id (\<lambda>n. job\<lparr>RetryCount := n\<rparr>) (decode_int v (RetryCount job))
      else if key_is k ''error_message'' then
        map_sum id (\<lambda>s. job\<lparr>ErrorMessage := s\<rparr>) (decode_string v (ErrorMessage job))
      else if key_is k ''error_class'' then
        map_sum id (\<lambda>s. job\<lparr>ErrorType := s\<rparr>) (decode_string v (ErrorType job))
      else if key_is k ''retried_at'' then
        map_sum id (\<lambda>s. job\<lparr>RetriedAt := s\<rparr>) (decode_string v (RetriedAt job))
      else if key_is k ''failed_at'' then
        map_sum id (\<lambda>s. job\<lparr>FailedAt := s\<rparr>) (decode_string v (FailedAt job))
      else Inr job)"

fun decode_members :: "Job \<Rightarrow> (string \<times> json) list \<Rightarrow> go_error + Job" where
  "decode_members job [] = Inr job"
| "decode_members job (kv # ms) =
     (case set_member job kv of Inl e \<Rightarrow> Inl e | Inr job' \<Rightarrow> decode_members job' ms)"

fun Unmarshal_Job :: "Job \<Rightarrow> json \<Rightarrow> go_error + Job" where
  "Unmarshal_Job job JNull = Inr job"
| "Unmarshal_Job job (JObject ms) = decode_members job ms"
| "Unmarshal_Job job _ = Inl UnmarshalTypeError"

definition FromJSON :: "golib \<Rightarrow> Job \<Rightarrow> string \<Rightarrow> go_error + Job" where
  "FromJSON rt job data =
     (case json_parse rt data of
        Inl err \<Rightarrow> Inl err
      | Inr doc \<Rightarrow>
          (case Unmarshal_Job job doc of
             Inl err \<Rightarrow> Inl err
           | Inr job' \<Rightarrow>
               Inr (case Retry job' of
                      DFloat mx \<Rightarrow> job'\<lparr>MaxRetries := f64_to_int (conv_oor rt) mx\<rparr>
                    | DBool False \<Rightarrow> job'
                    | _ \<Rightarrow> job'\<lparr>MaxRetries := defaultMaxRetries\<rparr>)))"

text \<open>\<open>json.Marshal\<close> of the struct: the tagged fields in declaration order.\<close>

definition omitempty :: "string \<Rightarrow> string \<Rightarrow> (string \<times> json) list" where
  "omitempty name s = (if s = '''' then [] else [(name, JString s)])"

definition Marshal_Job :: "Job \<Rightarrow> json" where
  "Marshal_Job job = JObject (
     [(''class'', JString (Type job)),
      (''args'', case Args job of None \<Rightarrow> JNull | Some xs \<Rightarrow> JArray (map of_dyn xs))]
     @ omitempty ''queue'' (Queue job)
     @ [(''jid'', JString (ID job)),
        (''retry'', of_dyn (Retry job)),
        (''retry_count'', JInt (sint (RetryCount job)))]
     @ omitempty ''error_message'' (ErrorMessage job)
     @ omitempty ''error_class'' (ErrorType job)
     @ omitempty ''retried_at'' (RetriedAt job)
     @ omitempty ''failed_at'' (FailedAt job))"

definition JSON :: "golib \<Rightarrow> Job \<Rightarrow> string" where
  "JSON rt job = json_print rt (Marshal_Job job)"



section \<open>Configuration, store commands and effects\<close>

text \<open>
  A handler's \<open>Perform\<close> returns an error (or none) or panics with a value: a string, an
  error, or any other value.
\<close>

datatype panic_value =
    PString string
  | PError go_error
  | POther

datatype outcome =
    Returns "go_error option"
  | Panics panic_value

type_synonym handler = "dyn list option \<Rightarrow> outcome"

text \<open>
  The queue map is its list of entries in the order \<open>range\<close> visits them (keys distinct).
\<close>

record WorkerConfig =
  RedisNamespace :: string
  Queues :: "(string \<times> go_int) list"
  workerMapping :: "string \<Rightarrow> handler option"
  randomQueues :: "string list"

text \<open>
  What a function does to the outside is the list of its effects, in order: a
  \<open>MULTI\<close> ... \<open>EXEC\<close> transaction, a single command, a call of the \<open>ReportError\<close>
  callback. The store's answer to a transaction is given by \<open>redis\<close>: the error of
  \<open>EXEC\<close>, if any. Log lines are left out.
\<close>

datatype bound = NegInf | Score float64

datatype command =
    BLPOP "string list" nat
  | SADD string string
  | SREM string string
  | SETEX string nat string
  | DEL string
  | INCR string
  | RPUSH string string
  | ZADD string float64 string
  | ZRANGEBYSCORE string bound bound
  | ZREMRANGEBYSCORE string bound bound

datatype effect =
    Exec "command list"
  | Query command
  | Report go_error "Job option"

type_synonym redis = "command list \<Rightarrow> go_error option"

datatype go_panic = SliceBounds | IndexRange | TypeAssertion

definition nsKey :: "WorkerConfig \<Rightarrow> string \<Rightarrow> string" where
  "nsKey w key = (if RedisNamespace w \<noteq> '''' then RedisNamespace w @ '':'' @ key else key)"

definition handleError :: "go_error \<Rightarrow> effect list" where
  "handleError err = [Report err None]"

definition currentTimeFloat :: "go_time \<Rightarrow> float64" where
  "currentTimeFloat t = f64_div (f64_of_int t) (f64_of_int 1000000000)"

definition UnknownWorkerError :: "string \<Rightarrow> go_error" where
  "UnknownWorkerError typ =
     \<lparr>etype = ''gokiq.UnknownWorkerError'', emsg = ''gokiq: Unknown worker type: '' @ typ\<rparr>"

definition panicToError :: "golib \<Rightarrow> panic_value \<Rightarrow> go_panic + go_error" where
  "panicToError rt err =
     (case err of
        PString str \<Rightarrow> Inr \<lparr>etype = ''*errors.errorString'', emsg = Errorf rt str\<rparr>
      | PError e \<Rightarrow> Inr e
      | POther \<Rightarrow> Inl TypeAssertion)"

section \<open>Dispatcher: the queue list\<close>

text \<open>
  \<open>queueList\<close> takes the permutation \<open>rand.Perm(len(w.randomQueues))\<close> as \<open>perm\<close>. Slicing it
  beyond its length and indexing out of range panic.
\<close>

definition denormalizeQueues :: "WorkerConfig \<Rightarrow> WorkerConfig" where
  "denormalizeQueues w =
     w\<lparr>randomQueues := randomQueues w @
          concat (map (\<lambda>(queue, x). replicate (nat (sint x)) (nsKey w (''queue:'' @ queue)))
                      (Queues w))\<rparr>"

fun unique_queues :: "string list \<Rightarrow> nat list \<Rightarrow> string list \<Rightarrow> go_panic + string list" where
  "unique_queues rq [] res = Inr res"
| "unique_queues rq (i # indices) res =
     (if i < length rq then
        (let queue = rq ! i
         in unique_queues rq indices (if queue \<in> set res then res else res @ [queue]))
      else Inl IndexRange)"

definition queueList :: "WorkerConfig \<Rightarrow> nat list \<Rightarrow> go_panic + string list" where
  "queueList w perm =
     (let size = length (Queues w)
      in if size \<le> length perm then unique_queues (randomQueues w) (take size perm) []
         else Inl SliceBounds)"

section \<open>Retry engine\<close>

text \<open>
  The inputs of one call: the two clock readings (\<open>time.Now()\<close> for the timestamp,
  \<open>currentTimeFloat()\<close> for the score) and the draw \<open>rand.Intn(30)\<close>.
\<close>

record retry_env =
  fail_time :: go_time
  retry_clock :: go_time
  jitter :: int

definition scheduleRetry ::
  "golib \<Rightarrow> WorkerConfig \<Rightarrow> retry_env \<Rightarrow> Job \<Rightarrow> go_error \<Rightarrow> Job \<times> effect list" where
  "scheduleRetry rt w env job err =
     (let now = time_Format rt TimestampFormat (fail_time env);
          job1 = (if FailedAt job = '''' then job\<lparr>FailedAt := now\<rparr>
                  else job\<lparr>RetryCount := RetryCount job + 1\<rparr>);
          job2 = (if 0 < sint (RetryCount job1) then job1\<lparr>RetriedAt := now\<rparr> else job1)
      in if sint (RetryCount job2) < sint (MaxRetries job2) then
           (let job3 = job2\<lparr>ErrorType := etype err, ErrorMessage := emsg err\<rparr>;
                nextRetry = f64_add (currentTimeFloat (retry_clock env))
                                    (retryDelay (RetryCount job3) (jitter env))
            in (job3, [Report err (Some job),
                       Query (ZADD (nsKey w ''retry'') nextRetry (JSON rt job3))]))
         else (job2, [Report err (Some job)]))"

section \<open>Bookkeeper\<close>

definition runningJob :: "string \<Rightarrow> Job \<Rightarrow> int \<Rightarrow> json" where
  "runningJob queue job timestamp =
     JObject [(''queue'', JString queue), (''payload'', Marshal_Job job), (''run_at'', JInt timestamp)]"

record start_env =
  started_clock :: go_time
  run_at_clock :: go_time
  start_clock :: go_time

definition logJobStart ::
  "golib \<Rightarrow> WorkerConfig \<Rightarrow> redis \<Rightarrow> start_env \<Rightarrow> Job \<Rightarrow> string \<Rightarrow> Job \<times> effect list" where
  "logJobStart rt w conn env job workerID =
     (let payload = runningJob (Queue job) job (run_at_clock env div 1000000000);
          tx = [SADD (nsKey w ''workers'') workerID,
                SETEX (nsKey w (''worker:'' @ workerID @ '':started'')) keyExpiry
                      (time_String rt (started_clock env)),
                SETEX (nsKey w (''worker:'' @ workerID)) keyExpiry (json_print rt payload)]
      in (job\<lparr>StartTime := start_clock env\<rparr>,
          Exec tx # (case conn tx of None \<Rightarrow> [] | Some err \<Rightarrow> handleError err)))"

definition logJobFinish :: "WorkerConfig \<Rightarrow> redis \<Rightarrow> Job \<Rightarrow> string \<Rightarrow> bool \<Rightarrow> effect list" where
  "logJobFinish w conn job workerID success =
     (let tx = [SREM (nsKey w ''workers'') workerID,
                DEL (nsKey w (''worker:'' @ workerID @ '':started'')),
                DEL (nsKey w (''worker:'' @ workerID)),
                INCR (nsKey w ''stat:processed'')]
               @ (if \<not> success then [INCR (nsKey w ''stat:failed'')] else [])
      in Exec tx # (case conn tx of None \<Rightarrow> [] | Some err \<Rightarrow> handleError err))"

section \<open>Worker pool\<close>

text \<open>
  One iteration of a runner's loop on a received message: what it does, the job afterwards,
  and how the loop goes on (\<open>Next\<close>: the next message; \<open>Exit\<close>: the runner returns;
  \<open>Abort\<close>: a panic leaves the goroutine).
\<close>

record message =
  job :: Job
  die :: bool

datatype control = Next | Exit | Abort go_panic

text \<open>
  The function literal around \<open>Perform\<close>: a returned error is kept; a panic is recovered by
  the deferred function and passed to \<open>panicToError\<close>, whose own panic is not recovered.
\<close>

definition recovered :: "golib \<Rightarrow> outcome \<Rightarrow> go_panic + go_error option" where
  "recovered rt out =
     (case out of
        Returns e \<Rightarrow> Inr e
      | Panics r \<Rightarrow> (case panicToError rt r of Inl p \<Rightarrow> Inl p | Inr e \<Rightarrow> Inr (Some e)))"

record worker_env =
  starting :: start_env
  retrying :: retry_env

definition worker_step ::
  "golib \<Rightarrow> WorkerConfig \<Rightarrow> redis \<Rightarrow> worker_env \<Rightarrow> string \<Rightarrow> message
     \<Rightarrow> control \<times> Job \<times> effect list" where
  "worker_step rt w conn env workerID msg =
     (if die msg then (Exit, job msg, [])
      else
        case workerMapping w (Type (job msg)) of
          None \<Rightarrow>
            (let (job', es) = scheduleRetry rt w (retrying env) (job msg)
                                (UnknownWorkerError (Type (job msg)))
             in (Next, job', es))
        | Some perform \<Rightarrow>
            (let (job1, es1) = logJobStart rt w conn (starting env) (job msg) workerID
             in case recovered rt (perform (Args job1)) of
                  Inl p \<Rightarrow> (Abort p, job1, es1)
                | Inr err \<Rightarrow>
                    (let (job2, es2) =
                           (case err of
                              None \<Rightarrow> (job1, [])
                            | Some e \<Rightarrow> scheduleRetry rt w (retrying env) job1 e)
                     in (Next, job2, es1 @ es2 @ logJobFinish w conn job2 workerID (err = None)))))"

section \<open>Scheduler\<close>

text \<open>
  \<open>Unmarshal_queue\<close> is \<open>json.Unmarshal\<close> into the struct with the single string field
  \<open>Queue\<close>, tagged \<open>queue\<close>. \<open>promote\<close> is the loop over the envelopes fetched from
  one set; \<open>poll_set\<close> the body of the loop over the two sets, \<open>fetch\<close> giving the store's
  reply to the fetching transaction.
\<close>

definition queue_step :: "string \<times> json \<Rightarrow> go_error + string \<Rightarrow> go_error + string" where
  "queue_step kv acc =
     (case acc of
        Inl e \<Rightarrow> Inl e
      | Inr q \<Rightarrow> if key_is (fst kv) ''queue'' then decode_string (snd kv) q else Inr q)"

definition Unmarshal_queue :: "golib \<Rightarrow> string \<Rightarrow> go_error + string" where
  "Unmarshal_queue rt data =
     (case json_parse rt data of
        Inl err \<Rightarrow> Inl err
      | Inr JNull \<Rightarrow> Inr ''''
      | Inr (JObject ms) \<Rightarrow> fold queue_step ms (Inr '''')
      | Inr _ \<Rightarrow> Inl UnmarshalTypeError)"

fun promote :: "golib \<Rightarrow> WorkerConfig \<Rightarrow> redis \<Rightarrow> string list \<Rightarrow> effect list" where
  "promote rt w conn [] = []"
| "promote rt w conn (msgBytes # rest) =
     (case Unmarshal_queue rt msgBytes of
        Inl err \<Rightarrow> handleError err
      | Inr queue \<Rightarrow>
          (let tx = [SADD (nsKey w ''queues'') queue,
                     RPUSH (nsKey w (''queue:'' @ queue)) msgBytes]
           in Exec tx # (case conn tx of None \<Rightarrow> [] | Some err \<Rightarrow> handleError err)))
     @ promote rt w conn rest"

text \<open>\<open>fmt.Sprintf("%f", x)\<close>: six decimals.\<close>

definition Sprintf_f :: "float64 \<Rightarrow> float64" where
  "Sprintf_f x = of_int (round_half_even (x * 1000000)) / 1000000"

definition poll_set ::
  "golib \<Rightarrow> WorkerConfig \<Rightarrow> redis \<Rightarrow> (command list \<Rightarrow> go_error + string list) \<Rightarrow> float64
     \<Rightarrow> string \<Rightarrow> effect list" where
  "poll_set rt w conn fetch now zset =
     (let tx = [ZRANGEBYSCORE zset NegInf (Score now), ZREMRANGEBYSCORE zset NegInf (Score now)]
      in Exec tx #
         (case fetch tx of
            Inl err \<Rightarrow> handleError err
          | Inr res \<Rightarrow> promote rt w conn res))"

definition scheduler ::
  "golib \<Rightarrow> WorkerConfig \<Rightarrow> redis \<Rightarrow> (command list \<Rightarrow> go_error + string list) \<Rightarrow> go_time
     \<Rightarrow> effect list" where
  "scheduler rt w conn fetch tick =
     (let pollSets = [nsKey w ''retry'', nsKey w ''schedule''];
          now = Sprintf_f (currentTimeFloat tick)
      in concat (map (poll_set rt w conn fetch now) pollSets))"


section \<open>Dispatcher: one fetch\<close>

definition redisTimeout :: nat where
  "redisTimeout = 1"

definition run ::
  "golib \<Rightarrow> WorkerConfig \<Rightarrow> nat list \<Rightarrow> (go_error + (string \<times> string) option)
     \<Rightarrow> go_panic + effect list \<times> message option" where
  "run rt w perm reply =
     (case queueList w perm of
        Inl p \<Rightarrow> Inl p
      | Inr queues \<Rightarrow>
          Inr (let pop = Query (BLPOP queues redisTimeout)
               in case reply of
                    Inr None \<Rightarrow> ([pop], None)
                  | Inl err \<Rightarrow> (pop # handleError err, None)
                  | Inr (Some (key, data)) \<Rightarrow>
                      (case FromJSON rt zero_Job data of
                         Inl err \<Rightarrow> (pop # handleError err, None)
                       | Inr j \<Rightarrow>
                           ([pop],
                            Some \<lparr>job = j\<lparr>Queue := drop (length (nsKey w ''queue:'')) key\<rparr>,
                                  die = False\<rparr>))))"

section \<open>Notions used in the statements\<close>

text \<open>The transactions among the effects, in order.\<close>

definition transactions :: "effect list \<Rightarrow> command list list" where
  "transactions es = concat (map (\<lambda>e. case e of Exec tx \<Rightarrow> [tx] | _ \<Rightarrow> []) es)"

text \<open>
  The value an envelope carries under a name: that of the last member so named (letter
  case aside), as the decoder takes the members in order.
\<close>

definition wire_member :: "string \<Rightarrow> (string \<times> json) list \<Rightarrow> json option" where
  "wire_member name ms =
     (case filter (\<lambda>kv. key_is (fst kv) name) ms of [] \<Rightarrow> None | xs \<Rightarrow> Some (snd (last xs)))"

definition wire_retry :: "json \<Rightarrow> json option" where
  "wire_retry doc = (case doc of JObject ms \<Rightarrow> wire_member ''retry'' ms | _ \<Rightarrow> None)"

definition json_number :: "json \<Rightarrow> rat option" where
  "json_number v = (case v of JInt i \<Rightarrow> Some (of_int i) | JFrac q \<Rightarrow> Some q | _ \<Rightarrow> None)"

definition queue_key :: "WorkerConfig \<Rightarrow> string \<Rightarrow> string" where
  "queue_key w queue = nsKey w (''queue:'' @ queue)"

section \<open>Example inputs\<close>

text \<open>
  A library given by a book of texts and the documents they spell: a text outside the
  book is a syntax error. Out-of-range conversions give the least \<open>int\<close> (as on amd64);
  \<open>fmt.Errorf\<close> of a string without verbs is the string.
\<close>

definition syntax_error :: go_error where
  "syntax_error = \<lparr>etype = ''*json.SyntaxError'', emsg = ''invalid character''\<rparr>"

definition table_lib :: "(string \<times> json) list \<Rightarrow> golib" where
  "table_lib book =
     \<lparr>json_parse = (\<lambda>s. case map_of book s of None \<Rightarrow> Inl syntax_error | Some d \<Rightarrow> Inr d),
      json_print = (\<lambda>d. case find (\<lambda>e. snd e = d) book of None \<Rightarrow> ''null'' | Some e \<Rightarrow> fst e),
      conv_oor = (\<lambda>x. - (2 ^ 63)),
      Errorf = (\<lambda>s. s),
      time_Format = (\<lambda>layout t. ''2023-11-14 22:13:20 UTC''),
      time_String = (\<lambda>t. ''2023-11-14 22:13:20 +0000 UTC'')\<rparr>"

definition boom :: go_error where
  "boom = \<lparr>etype = ''*errors.errorString'', emsg = ''boom''\<rparr>"

definition demo_config :: WorkerConfig where
  "demo_config =
     \<lparr>RedisNamespace = ''app'',
      Queues = [(''default'', 2), (''mail'', 1)],
      workerMapping = (\<lambda>name. if name = ''Echo'' then Some (\<lambda>args. Returns (Some boom))
                               else if name = ''Crash'' then Some (\<lambda>args. Panics POther)
                               else None),
      randomQueues = []\<rparr>"

definition zero_weight_config :: WorkerConfig where
  "zero_weight_config = demo_config\<lparr>Queues := [(''default'', 0)]\<rparr>"

definition demo_retry_env :: retry_env where
  "demo_retry_env =
     \<lparr>fail_time = 1700000000000000000, retry_clock = 1700000000000000000, jitter = 0\<rparr>"

definition demo_env :: worker_env where
  "demo_env =
     \<lparr>starting = \<lparr>started_clock = 1699999999000000000, run_at_clock = 1699999999000000000,
                   start_clock = 1699999999000000000\<rparr>,
      retrying = demo_retry_env\<rparr>"

definition no_error :: redis where
  "no_error = (\<lambda>tx. None)"

definition echo_job :: Job where
  "echo_job = zero_Job\<lparr>Type := ''Echo'', Args := Some [DFloat 1, DFloat 2], Queue := ''default'',
     ID := ''a'', Retry := DBool True\<rparr>"

definition failed_job :: Job where
  "failed_job = echo_job\<lparr>MaxRetries := 25, FailedAt := ''2023-11-14 22:00:00 UTC''\<rparr>"

definition negative_job :: Job where
  "negative_job = echo_job\<lparr>MaxRetries := 3, RetryCount := - 5\<rparr>"

definition missing_job :: Job where
  "missing_job = zero_Job\<lparr>Type := ''Missing'', Queue := ''default'', ID := ''b'',
     Retry := DBool True, MaxRetries := 25\<rparr>"

definition crash_job :: Job where
  "crash_job = zero_Job\<lparr>Type := ''Crash'', Queue := ''default'', ID := ''c'',
     Retry := DBool True, MaxRetries := 25\<rparr>"

definition retry_three :: json where
  "retry_three = JObject [(''class'', JString ''Echo''), (''args'', JArray [JInt 1, JInt 2]),
     (''jid'', JString ''a''), (''retry'', JInt 3)]"

definition retry_fraction :: json where
  "retry_fraction = JObject [(''class'', JString ''Echo''), (''args'', JArray [JInt 1, JInt 2]),
     (''jid'', JString ''a''), (''retry'', JFrac (- 3 / 2))]"

definition mail_envelope :: json where
  "mail_envelope = JObject [(''class'', JString ''Echo''), (''args'', JArray []),
     (''queue'', JString ''mail''), (''jid'', JString ''d''), (''retry'', JBool True),
     (''unknown_key'', JString ''kept'')]"

definition demo_lib :: golib where
  "demo_lib = table_lib
     [(''<retry three>'', retry_three),
      (''<retry fraction>'', retry_fraction),
      (''<mail envelope>'', mail_envelope),
      (''<echo job>'', Marshal_Job echo_job)]"

section \<open>Theorems\<close>

subsection \<open>Float arithmetic is exact on small integers\<close>

lemma round_half_even_of_int: "round_half_even (of_int z) = z"
  by (simp add: round_half_even_def)

lemma pow2_nonpos: "e \<le> 0 \<Longrightarrow> pow2 e = 1 / 2 ^ nat (- e)"
  by (auto simp: pow2_def)

lemma f64_round_pos_int_exact:
  assumes "0 < n" "n < 2 ^ 53"
  shows "f64_round (of_int n) = of_int n"
proof -
  have b: "bitlen n \<le> 53"
    using assms by (simp add: bitlen_le_iff_power)
  define m where "m = nat (53 - bitlen n)"
  have il: "ilog2 \<bar>of_int n\<bar> = bitlen n - 1"
    using assms by (simp add: ilog2_def)
  have u: "pow2 (ilog2 \<bar>of_int n\<bar> - 52) = 1 / 2 ^ m"
    using b by (simp add: il pow2_nonpos m_def)
  have sc: "\<bar>of_int n :: rat\<bar> / (1 / 2 ^ m) = of_int (n * 2 ^ m)"
    using assms by simp
  have "f64_round (of_int n) =
      sgn (of_int n) * of_int (round_half_even (\<bar>of_int n\<bar> / (1 / 2 ^ m))) * (1 / 2 ^ m)"
    using assms unfolding f64_round_def Let_def u by simp
  also have "\<dots> = of_int (n * 2 ^ m) * (1 / 2 ^ m)"
    using assms unfolding sc round_half_even_of_int by simp
  also have "\<dots> = of_int n"
    by simp
  finally show ?thesis .
qed

lemma f64_round_neg: "f64_round (- q) = - f64_round q"
  by (simp add: f64_round_def Let_def)

lemma f64_round_int_exact:
  assumes "\<bar>k\<bar> < 2 ^ 53"
  shows "f64_round (of_int k) = of_int k"
proof (cases "k = 0")
  case True
  then show ?thesis by (simp add: f64_round_def)
next
  case False
  show ?thesis
  proof (cases "0 < k")
    case True
    with assms show ?thesis by (simp add: f64_round_pos_int_exact)
  next
    case neg: False
    with False assms have "f64_round (of_int (- k)) = of_int (- k)"
      by (intro f64_round_pos_int_exact) auto
    then show ?thesis by (simp add: f64_round_neg)
  qed
qed

lemma f64_ops_exact:
  "\<bar>a + b\<bar> < 2 ^ 53 \<Longrightarrow> f64_add (of_int a) (of_int b) = of_int (a + b)"
  "\<bar>a * b\<bar> < 2 ^ 53 \<Longrightarrow> f64_mul (of_int a) (of_int b) = of_int (a * b)"
  "\<bar>a ^ n\<bar> < 2 ^ 53 \<Longrightarrow> math_Pow (of_int a) n = of_int (a ^ n)"
  "\<bar>a\<bar> < 2 ^ 53 \<Longrightarrow> f64_of_int a = of_int a"
  using f64_round_int_exact [of "a + b"] f64_round_int_exact [of "a * b"]
    f64_round_int_exact [of "a ^ n"] f64_round_int_exact [of a]
  by (simp_all add: f64_add_def f64_mul_def math_Pow_def f64_of_int_def)

subsection \<open>Backoff\<close>

lemma retryDelay_small:
  assumes c: "0 \<le> c" "c \<le> 9741" and r: "0 \<le> r" "r < 30" and cc: "sint count = c"
  shows "retryDelay count r = of_int (c ^ 4 + 15 + r * (c + 1))"
proof -
  have p4: "c ^ 4 \<le> 9741 ^ 4"
    using c by (intro power_mono) auto
  have p4': "0 \<le> c ^ 4" using c by simp
  have rc: "r * (c + 1) \<le> 29 * 9742"
    using c r by (intro mult_mono) auto
  have rc': "0 \<le> r * (c + 1)" using c r by simp
  have e1: "f64_of_int c = of_int c"
    using c by (intro f64_ops_exact) auto
  have e2: "math_Pow (of_int c) 4 = of_int (c ^ 4)"
    using p4 p4' by (intro f64_ops_exact) auto
  have e3: "f64_add (of_int (c ^ 4)) (of_int 15) = of_int (c ^ 4 + 15)"
    using p4 p4' by (intro f64_ops_exact) auto
  have e4: "f64_of_int r = of_int r"
    using r by (intro f64_ops_exact) auto
  have e5: "f64_add (of_int c) (of_int 1) = of_int (c + 1)"
    using c by (intro f64_ops_exact) auto
  have e6: "f64_mul (of_int r) (of_int (c + 1)) = of_int (r * (c + 1))"
    using rc rc' by (intro f64_ops_exact) auto
  have e7: "f64_add (of_int (c ^ 4 + 15)) (of_int (r * (c + 1))) =
      of_int (c ^ 4 + 15 + r * (c + 1))"
    using p4 p4' rc rc' by (intro f64_ops_exact) auto
  have "retryDelay count r =
      f64_add (f64_add (math_Pow (f64_of_int c) 4) (of_int 15))
              (f64_mul (f64_of_int r) (f64_add (f64_of_int c) (of_int 1)))"
    by (simp add: retryDelay_def cc)
  also have "\<dots> = of_int (c ^ 4 + 15 + r * (c + 1))"
    by (simp only: e1 e2 e3 e4 e5 e6 e7)
  finally show ?thesis .
qed

text \<open>
  Claim C7, as amended. With \<open>r\<close> the integer drawn from \<open>[0, 30)\<close>: for every count from
  0 to 9741 the delay is exactly \<open>count^4 + 15 + r * (count + 1)\<close> seconds, and for count 0
  it lies between 15 and 44 seconds inclusive. (Up to 9741 every intermediate value is an
  integer below \<open>2^53\<close>, so no float64 operation rounds.)
\<close>

theorem retryDelay_formula:
  assumes "0 \<le> r" "r < 30"
  shows "(0 \<le> sint count \<and> sint count \<le> 9741 \<longrightarrow>
            retryDelay count r = of_int ((sint count) ^ 4 + 15 + r * (sint count + 1)))
         \<and> 15 \<le> retryDelay 0 r \<and> retryDelay 0 r \<le> 44"
proof -
  have z: "retryDelay 0 r = of_int (0 ^ 4 + 15 + r * (0 + 1))"
    using assms by (intro retryDelay_small) auto
  show ?thesis
    using assms retryDelay_small [of "sint count" r count] unfolding z by auto
qed

theorem retryDelay_formula_witness:
  "retryDelay 2 7 = 52 \<and> 15 \<le> retryDelay 0 7 \<and> retryDelay 0 7 \<le> 44"
  using retryDelay_formula [of 7 2] by simp

text \<open>
  The claim as stated, for every count \<open>\<ge> 0\<close>, fails at count 9742 with the draw 0:
  \<open>9742^4 + 15\<close> is odd and larger than \<open>2^53\<close>, so it is no float64 value; the function
  returns the neighbouring even number.
\<close>

theorem retryDelay_counterexample:
  "0 \<le> sint (9742 :: go_int) \<and>
   retryDelay 9742 0 \<noteq> of_int ((sint (9742 :: go_int)) ^ 4 + 15 + 0 * (sint (9742 :: go_int) + 1)) \<and>
   retryDelay 9742 0 = 9742 ^ 4 + 16"
  by code_simp

subsection \<open>Job codec: the retry field\<close>

lemma key_is_functional: "key_is k a \<Longrightarrow> key_is k b \<longleftrightarrow> a = b"
  by (auto simp: key_is_def)

lemma map_sum_id_Inr: "map_sum id f x = Inr y \<longleftrightarrow> (\<exists>z. x = Inr z \<and> y = f z)"
  by (cases x) auto

lemma set_member_retry:
  assumes "set_member j kv = Inr j'"
  shows "key_is (fst kv) ''retry'' \<Longrightarrow> to_dyn (snd kv) = Some (Retry j')"
    and "\<not> key_is (fst kv) ''retry'' \<Longrightarrow> Retry j' = Retry j"
  using assms
  by (auto simp: set_member_def Let_def key_is_functional decode_iface_def map_sum_id_Inr
      split: if_splits option.splits)

lemma set_member_MaxRetries:
  "set_member j kv = Inr j' \<Longrightarrow> MaxRetries j' = MaxRetries j"
  by (auto simp: set_member_def Let_def map_sum_id_Inr split: if_splits)

lemma wire_member_Cons:
  "wire_member name (kv # ms) =
     (case wire_member name ms of
        Some v \<Rightarrow> Some v
      | None \<Rightarrow> if key_is (fst kv) name then Some (snd kv) else None)"
  by (auto simp: wire_member_def split: list.splits)

lemma decode_members_retry:
  assumes "decode_members j0 ms = Inr j"
  shows "MaxRetries j = MaxRetries j0 \<and>
         (case wire_member ''retry'' ms of
            None \<Rightarrow> Retry j = Retry j0
          | Some v \<Rightarrow> to_dyn v = Some (Retry j))"
  using assms
proof (induction ms arbitrary: j0)
  case Nil
  then show ?case by (simp add: wire_member_def)
next
  case (Cons kv ms)
  from Cons.prems obtain j1 where s: "set_member j0 kv = Inr j1"
    and d: "decode_members j1 ms = Inr j"
    by (auto split: sum.splits)
  note ih = Cons.IH [OF d]
  show ?case
  proof (cases "wire_member ''retry'' ms")
    case (Some v)
    with ih set_member_MaxRetries [OF s] show ?thesis by (simp add: wire_member_Cons)
  next
    case None
    with ih set_member_MaxRetries [OF s] set_member_retry [OF s] show ?thesis
      by (auto simp: wire_member_Cons)
  qed
qed

lemma Unmarshal_Job_retry:
  assumes "Unmarshal_Job j0 doc = Inr j"
  shows "MaxRetries j = MaxRetries j0 \<and>
         (case wire_retry doc of
            None \<Rightarrow> Retry j = Retry j0
          | Some v \<Rightarrow> to_dyn v = Some (Retry j))"
  using assms decode_members_retry [of j0 _ j]
  by (cases doc) (auto simp: wire_retry_def)

lemma pow2_pos: "0 < pow2 e"
  by (simp add: pow2_def)

lemma round_half_even_nonneg: "0 \<le> x \<Longrightarrow> 0 \<le> round_half_even x"
  by (auto simp: round_half_even_def Let_def)

lemma f64_round_nonneg:
  assumes "0 \<le> q"
  shows "0 \<le> f64_round q"
proof (cases "q = 0")
  case True
  then show ?thesis by (simp add: f64_round_def)
next
  case False
  let ?u = "pow2 (ilog2 \<bar>q\<bar> - 52)"
  have u: "0 < ?u" by (rule pow2_pos)
  then have "0 \<le> \<bar>q\<bar> / ?u" by simp
  then have "0 \<le> round_half_even (\<bar>q\<bar> / ?u)" by (rule round_half_even_nonneg)
  moreover have "0 \<le> sgn q" using assms by (simp add: sgn_if)
  ultimately have "0 \<le> sgn q * of_int (round_half_even (\<bar>q\<bar> / ?u)) * ?u"
    using u by (intro mult_nonneg_nonneg) auto
  with False show ?thesis by (simp add: f64_round_def Let_def)
qed

lemma f64_parse_Some: "f64_parse x = Some v \<Longrightarrow> v = f64_round x"
  by (auto simp: f64_parse_def Let_def split: if_splits)

lemma to_dyn_number:
  "json_number v = Some x \<Longrightarrow> to_dyn v = Some d \<Longrightarrow> d = DFloat (f64_round x)"
  by (cases v) (auto simp: json_number_def dest: f64_parse_Some)

lemma f64_to_int_in_range:
  "- (2 ^ 63) \<le> go_truncate v \<Longrightarrow> go_truncate v < 2 ^ 63 \<Longrightarrow>
   sint (f64_to_int oor v) = go_truncate v"
  by (simp add: f64_to_int_def Let_def sint_sbintrunc' signed_take_bit_int_eq_self)

lemma FromJSON_Inr:
  assumes "FromJSON rt j0 data = Inr j" "json_parse rt data = Inr doc"
  obtains j1 where "Unmarshal_Job j0 doc = Inr j1"
    and "j = (case Retry j1 of
                DFloat mx \<Rightarrow> j1\<lparr>MaxRetries := f64_to_int (conv_oor rt) mx\<rparr>
              | DBool False \<Rightarrow> j1
              | _ \<Rightarrow> j1\<lparr>MaxRetries := defaultMaxRetries\<rparr>)"
  using assms by (auto simp: FromJSON_def split: sum.splits)

text \<open>
  Claim C1, as amended. For every envelope that \<open>FromJSON\<close> accepts into a fresh job:
  when the wire \<open>retry\<close> value is a number, \<open>max_retries\<close> is its float64 value with the
  fraction discarded (rounded toward zero), provided that fits an \<open>int\<close>; this is the floor
  when the number is not negative, and the number itself when it is an integer literal
  from 0 to below \<open>2^53\<close>. It is 25 when \<open>retry\<close> is \<open>true\<close> or absent, and 0 when \<open>retry\<close>
  is \<open>false\<close>.
\<close>

theorem FromJSON_max_retries:
  assumes "FromJSON rt zero_Job data = Inr j" and "json_parse rt data = Inr doc"
  shows "(\<forall>x. Option.bind (wire_retry doc) json_number = Some x
              \<and> - (2 ^ 63) \<le> go_truncate (f64_round x) \<and> go_truncate (f64_round x) < 2 ^ 63 \<longrightarrow>
            sint (MaxRetries j) = go_truncate (f64_round x)
            \<and> (0 \<le> x \<longrightarrow> sint (MaxRetries j) = \<lfloor>f64_round x\<rfloor>))
       \<and> (\<forall>n. wire_retry doc = Some (JInt n) \<and> 0 \<le> n \<and> n < 2 ^ 53 \<longrightarrow> sint (MaxRetries j) = n)
       \<and> (wire_retry doc = Some (JBool True) \<or> wire_retry doc = None \<longrightarrow> MaxRetries j = 25)
       \<and> (wire_retry doc = Some (JBool False) \<longrightarrow> MaxRetries j = 0)"
proof -
  from assms obtain j1 where u: "Unmarshal_Job zero_Job doc = Inr j1"
    and j: "j = (case Retry j1 of
                DFloat mx \<Rightarrow> j1\<lparr>MaxRetries := f64_to_int (conv_oor rt) mx\<rparr>
              | DBool False \<Rightarrow> j1
              | _ \<Rightarrow> j1\<lparr>MaxRetries := defaultMaxRetries\<rparr>)"
    by (rule FromJSON_Inr)
  note r = Unmarshal_Job_retry [OF u]
  have num: "sint (MaxRetries j) = go_truncate (f64_round x)"
    if "Option.bind (wire_retry doc) json_number = Some x"
      "- (2 ^ 63) \<le> go_truncate (f64_round x)" "go_truncate (f64_round x) < 2 ^ 63" for x
  proof -
    from that(1) obtain v where v: "wire_retry doc = Some v" "json_number v = Some x"
      by (auto simp: bind_eq_Some_conv)
    with r have "Retry j1 = DFloat (f64_round x)"
      using to_dyn_number [of v x "Retry j1"] by simp
    then show ?thesis
      using that(2,3) by (simp add: j f64_to_int_in_range)
  qed
  have flo: "go_truncate (f64_round x) = \<lfloor>f64_round x\<rfloor>" if "0 \<le> x" for x
    using f64_round_nonneg [OF that] by (simp add: go_truncate_def)
  have int: "sint (MaxRetries j) = n"
    if "wire_retry doc = Some (JInt n)" "0 \<le> n" "n < 2 ^ 53" for n
  proof -
    have e: "f64_round (of_int n) = of_int n"
      using that by (intro f64_round_int_exact) auto
    have "sint (MaxRetries j) = go_truncate (f64_round (of_int n))"
      using that by (intro num) (auto simp: json_number_def e go_truncate_def)
    then show ?thesis using that by (simp add: e go_truncate_def)
  qed
  have t: "MaxRetries j = 25" if "wire_retry doc = Some (JBool True) \<or> wire_retry doc = None"
  proof -
    from that r have "Retry j1 = DBool True \<or> Retry j1 = DNil"
      by (auto simp: zero_Job_def)
    then show ?thesis
      by (auto simp: j defaultMaxRetries_def)
  qed
  have f: "MaxRetries j = 0" if "wire_retry doc = Some (JBool False)"
  proof -
    from that r have "Retry j1 = DBool False" "MaxRetries j1 = 0"
      by (auto simp: zero_Job_def)
    then show ?thesis
      by (simp add: j)
  qed
  show ?thesis
    using num flo int t f by auto
qed

subsection \<open>Retry engine\<close>

lemma scheduleRetry_cases:
  assumes "scheduleRetry rt w env j err = (j', es)"
  shows "sint (RetryCount j') < sint (MaxRetries j') \<Longrightarrow>
           es = [Report err (Some j),
                 Query (ZADD (nsKey w ''retry'')
                   (f64_add (currentTimeFloat (retry_clock env))
                            (retryDelay (RetryCount j') (jitter env)))
                   (JSON rt j'))]
           \<and> ErrorType j' = etype err \<and> ErrorMessage j' = emsg err"
    and "\<not> sint (RetryCount j') < sint (MaxRetries j') \<Longrightarrow> es = [Report err (Some j)]"
    and "MaxRetries j' = MaxRetries j"
  using assms by (auto simp: scheduleRetry_def Let_def split: if_splits)

lemma sint_succ:
  fixes x :: go_int
  assumes "sint x < 2 ^ 63 - 1"
  shows "sint (x + 1) = sint x + 1"
proof -
  have "- (2 ^ 63) \<le> sint x"
    using sint_ge [of x] by simp
  then have "signed_take_bit 63 (sint x + 1) = sint x + 1"
    using assms by (intro signed_take_bit_int_eq_self) auto
  then show ?thesis
    by (simp add: sint_word_ariths)
qed

lemma demo_retry:
  "scheduleRetry demo_lib demo_config demo_retry_env failed_job boom =
     (failed_job\<lparr>RetryCount := 1, RetriedAt := ''2023-11-14 22:13:20 UTC'',
        ErrorType := ''*errors.errorString'', ErrorMessage := ''boom''\<rparr>,
      [Report boom (Some failed_job), Query (ZADD ''app:retry'' 1700000016 ''null'')])"
  by code_simp

lemma demo_first_failure:
  "scheduleRetry demo_lib demo_config demo_retry_env echo_job boom =
     (echo_job\<lparr>FailedAt := ''2023-11-14 22:13:20 UTC''\<rparr>, [Report boom (Some echo_job)])"
  by code_simp

text \<open>
  Claim C2. For every job entering \<open>scheduleRetry\<close>: if \<open>failed_at\<close> is empty beforehand,
  then afterwards \<open>failed_at\<close> is the current UTC time in the format
  \<open>2006-01-02 15:04:05 MST\<close> and \<open>retry_count\<close> is unchanged (so it stays 0 on a first
  failure); otherwise \<open>retry_count\<close> is incremented by one (and \<open>failed_at\<close> is kept);
  \<open>retried_at\<close> is set to the current time exactly when the resulting \<open>retry_count\<close> is
  greater than 0.
\<close>

theorem scheduleRetry_metadata:
  assumes "scheduleRetry rt w env j err = (j', es)"
  shows "(FailedAt j = [] \<longrightarrow>
            FailedAt j' = time_Format rt TimestampFormat (fail_time env) \<and>
            RetryCount j' = RetryCount j \<and> (RetryCount j = 0 \<longrightarrow> RetryCount j' = 0))
       \<and> (FailedAt j \<noteq> [] \<longrightarrow> RetryCount j' = RetryCount j + 1 \<and> FailedAt j' = FailedAt j)
       \<and> RetriedAt j' = (if 0 < sint (RetryCount j')
                          then time_Format rt TimestampFormat (fail_time env) else RetriedAt j)
       \<and> TimestampFormat = ''2006-01-02 15:04:05 MST''"
  using assms by (auto simp: scheduleRetry_def Let_def TimestampFormat_def split: if_splits)

theorem scheduleRetry_metadata_witness:
  "FailedAt failed_job \<noteq> []
   \<and> RetryCount (fst (scheduleRetry demo_lib demo_config demo_retry_env failed_job boom))
       = RetryCount failed_job + 1
   \<and> RetriedAt (fst (scheduleRetry demo_lib demo_config demo_retry_env failed_job boom))
       = time_Format demo_lib TimestampFormat (fail_time demo_retry_env)
   \<and> FailedAt echo_job = []
   \<and> FailedAt (fst (scheduleRetry demo_lib demo_config demo_retry_env echo_job boom))
       = time_Format demo_lib TimestampFormat (fail_time demo_retry_env)
   \<and> RetryCount (fst (scheduleRetry demo_lib demo_config demo_retry_env echo_job boom)) = 0"
proof -
  have a: "FailedAt failed_job \<noteq> []" "FailedAt echo_job = []" "RetryCount echo_job = 0"
    by (simp_all add: failed_job_def echo_job_def zero_Job_def)
  have b: "0 < sint (RetryCount failed_job + 1)"
    by (simp add: failed_job_def echo_job_def zero_Job_def)
  from scheduleRetry_metadata [OF demo_retry] a b
    scheduleRetry_metadata [OF demo_first_failure]
  show ?thesis
    by (simp add: demo_retry demo_first_failure)
qed

text \<open>
  Claim C3, as amended. \<open>scheduleRetry\<close> writes the job back to the \<open>retry\<close> sorted set
  (one \<open>ZADD\<close>, with score \<open>currentTimeFloat() + retryDelay(retry_count)\<close> in float64 and
  \<open>error_class\<close>, \<open>error_message\<close> set from the error) if and only if the updated
  \<open>retry_count\<close> is strictly less than \<open>max_retries\<close>; otherwise it sends nothing to the
  store. So every envelope it persists has \<open>retry_count < max_retries\<close>, and
  \<open>0 \<le> retry_count\<close> provided the job arrived with a \<open>retry_count\<close> that is not negative
  (and not the largest \<open>int\<close>).
\<close>

theorem scheduleRetry_persists:
  assumes "scheduleRetry rt w env j err = (j', es)"
  shows "(sint (RetryCount j') < sint (MaxRetries j') \<longrightarrow>
            es = [Report err (Some j),
                  Query (ZADD (nsKey w ''retry'')
                    (f64_add (currentTimeFloat (retry_clock env))
                             (retryDelay (RetryCount j') (jitter env)))
                    (JSON rt j'))]
            \<and> ErrorType j' = etype err \<and> ErrorMessage j' = emsg err
            \<and> sint (RetryCount j') \<le> sint (MaxRetries j')
            \<and> (0 \<le> sint (RetryCount j) \<and> sint (RetryCount j) < 2 ^ 63 - 1
                  \<longrightarrow> 0 \<le> sint (RetryCount j')))
       \<and> (\<not> sint (RetryCount j') < sint (MaxRetries j') \<longrightarrow> es = [Report err (Some j)])"
proof -
  have "0 \<le> sint (RetryCount j')"
    if "0 \<le> sint (RetryCount j)" "sint (RetryCount j) < 2 ^ 63 - 1"
  proof (cases "FailedAt j = []")
    case True
    with assms that show ?thesis
      by (auto simp: scheduleRetry_def Let_def split: if_splits)
  next
    case False
    with assms have "RetryCount j' = RetryCount j + 1"
      by (auto simp: scheduleRetry_def Let_def split: if_splits)
    with that show ?thesis
      by (simp add: sint_succ)
  qed
  then show ?thesis
    using scheduleRetry_cases [OF assms] by auto
qed

theorem scheduleRetry_persists_witness:
  "scheduleRetry demo_lib demo_config demo_retry_env failed_job boom =
     (failed_job\<lparr>RetryCount := 1, RetriedAt := ''2023-11-14 22:13:20 UTC'',
        ErrorType := ''*errors.errorString'', ErrorMessage := ''boom''\<rparr>,
      [Report boom (Some failed_job), Query (ZADD ''app:retry'' 1700000016 ''null'')])
   \<and> sint (1 :: go_int) < sint (25 :: go_int)
   \<and> 0 \<le> sint (RetryCount failed_job)
   \<and> 0 \<le> sint (RetryCount (failed_job\<lparr>RetryCount := 1,
        RetriedAt := ''2023-11-14 22:13:20 UTC'',
        ErrorType := ''*errors.errorString'', ErrorMessage := ''boom''\<rparr>))"
  using scheduleRetry_persists [OF demo_retry] demo_retry
  by (simp add: failed_job_def echo_job_def zero_Job_def)

text \<open>
  The claim as stated (\<open>0 \<le> retry_count\<close> on every persisted envelope) fails for a job
  whose envelope carries \<open>"retry_count": -5\<close> and \<open>"retry": 3\<close>: on its first failure it is
  written to \<open>retry\<close> with \<open>retry_count\<close> still \<open>-5\<close>.
\<close>

theorem scheduleRetry_negative_counterexample:
  "scheduleRetry demo_lib demo_config demo_retry_env negative_job boom =
     (negative_job\<lparr>FailedAt := ''2023-11-14 22:13:20 UTC'',
        ErrorType := ''*errors.errorString'', ErrorMessage := ''boom''\<rparr>,
      [Report boom (Some negative_job),
       Query (ZADD ''app:retry'' 1700000640
         (JSON demo_lib (negative_job\<lparr>FailedAt := ''2023-11-14 22:13:20 UTC'',
            ErrorType := ''*errors.errorString'', ErrorMessage := ''boom''\<rparr>)))])
   \<and> sint (RetryCount (negative_job\<lparr>FailedAt := ''2023-11-14 22:13:20 UTC'',
        ErrorType := ''*errors.errorString'', ErrorMessage := ''boom''\<rparr>)) = - 5"
  by code_simp

subsection \<open>Job codec: decoding the members\<close>

lemma tags_lower:
  "map ascii_lower ''class'' = ''class''"
  "map ascii_lower ''args'' = ''args''"
  "map ascii_lower ''queue'' = ''queue''"
  "map ascii_lower ''jid'' = ''jid''"
  "map ascii_lower ''retry'' = ''retry''"
  "map ascii_lower ''retry_count'' = ''retry_count''"
  "map ascii_lower ''error_message'' = ''error_message''"
  "map ascii_lower ''error_class'' = ''error_class''"
  "map ascii_lower ''retried_at'' = ''retried_at''"
  "map ascii_lower ''failed_at'' = ''failed_at''"
  by code_simp+

lemma key_is_tags:
  "key_is ''class'' n \<longleftrightarrow> ''class'' = n"
  "key_is ''args'' n \<longleftrightarrow> ''args'' = n"
  "key_is ''queue'' n \<longleftrightarrow> ''queue'' = n"
  "key_is ''jid'' n \<longleftrightarrow> ''jid'' = n"
  "key_is ''retry'' n \<longleftrightarrow> ''retry'' = n"
  "key_is ''retry_count'' n \<longleftrightarrow> ''retry_count'' = n"
  "key_is ''error_message'' n \<longleftrightarrow> ''error_message'' = n"
  "key_is ''error_class'' n \<longleftrightarrow> ''error_class'' = n"
  "key_is ''retried_at'' n \<longleftrightarrow> ''retried_at'' = n"
  "key_is ''failed_at'' n \<longleftrightarrow> ''failed_at'' = n"
  unfolding key_is_def tags_lower by (rule refl)+

lemma set_member_tags:
  "set_member j (''class'', JString s) = Inr (j\<lparr>Type := s\<rparr>)"
  "set_member j (''args'', v) = map_sum id (\<lambda>a. j\<lparr>Args := a\<rparr>) (decode_slice v (Args j))"
  "set_member j (''queue'', JString s) = Inr (j\<lparr>Queue := s\<rparr>)"
  "set_member j (''jid'', JString s) = Inr (j\<lparr>ID := s\<rparr>)"
  "set_member j (''retry'', v) = map_sum id (\<lambda>d. j\<lparr>Retry := d\<rparr>) (decode_iface v)"
  "set_member j (''retry_count'', v) =
     map_sum id (\<lambda>n. j\<lparr>RetryCount := n\<rparr>) (decode_int v (RetryCount j))"
  "set_member j (''error_message'', JString s) = Inr (j\<lparr>ErrorMessage := s\<rparr>)"
  "set_member j (''error_class'', JString s) = Inr (j\<lparr>ErrorType := s\<rparr>)"
  "set_member j (''retried_at'', JString s) = Inr (j\<lparr>RetriedAt := s\<rparr>)"
  "set_member j (''failed_at'', JString s) = Inr (j\<lparr>FailedAt := s\<rparr>)"
  by (simp_all add: set_member_def key_is_tags)

lemma f64_parse_int:
  assumes "\<bar>k\<bar> < 2 ^ 53"
  shows "f64_parse (of_int k) = Some (of_int k)"
proof -
  have "\<bar>of_int k :: rat\<bar> < 2 ^ 53"
    using assms by (metis of_int_abs of_int_less_numeral_power_cancel_iff)
  also have "(2 :: rat) ^ 53 \<le> 2 ^ 1024"
    by (rule power_increasing) auto
  finally show ?thesis
    using f64_round_int_exact [OF assms] by (simp add: f64_parse_def)
qed

lemma f64_round_fraction: "f64_round (- (3 / 2)) = - (3 / 2)"
  by code_simp

lemma f64_parse_small:
  "f64_parse 1 = Some 1" "f64_parse 2 = Some 2" "f64_parse 3 = Some 3"
  "f64_parse (- (3 / 2)) = Some (- (3 / 2))"
  using f64_parse_int [of 1] f64_parse_int [of 2] f64_parse_int [of 3]
  by (simp_all add: f64_parse_def f64_round_fraction)

lemma demo_texts:
  "json_parse demo_lib ''<retry three>'' = Inr retry_three"
  "json_parse demo_lib ''<retry fraction>'' = Inr retry_fraction"
  "json_parse demo_lib ''<mail envelope>'' = Inr mail_envelope"
  "json_parse demo_lib ''<garbage>'' = Inl syntax_error"
  by code_simp+

lemma demo_wire_retry:
  "wire_retry retry_three = Some (JInt 3)"
  "wire_retry retry_fraction = Some (JFrac (- 3 / 2))"
  by code_simp+

lemma demo_parse_three:
  "FromJSON demo_lib zero_Job ''<retry three>'' =
     Inr (zero_Job\<lparr>Type := ''Echo'', Args := Some [DFloat 1, DFloat 2], ID := ''a'',
            Retry := DFloat 3, MaxRetries := 3\<rparr>)"
  by (simp add: FromJSON_def demo_texts retry_three_def set_member_tags decode_iface_def
      f64_parse_small f64_to_int_def go_truncate_def)

theorem FromJSON_max_retries_witness:
  "FromJSON demo_lib zero_Job ''<retry three>'' =
     Inr (zero_Job\<lparr>Type := ''Echo'', Args := Some [DFloat 1, DFloat 2], ID := ''a'',
            Retry := DFloat 3, MaxRetries := 3\<rparr>)
   \<and> json_parse demo_lib ''<retry three>'' = Inr retry_three
   \<and> wire_retry retry_three = Some (JInt 3)
   \<and> sint (MaxRetries (zero_Job\<lparr>Type := ''Echo'', Args := Some [DFloat 1, DFloat 2], ID := ''a'',
            Retry := DFloat 3, MaxRetries := 3\<rparr>)) = 3"
  using FromJSON_max_retries [OF demo_parse_three demo_texts(1)] demo_parse_three
    demo_texts(1) demo_wire_retry(1)
  by auto

lemma floor_ceiling_example:
  "\<lceil>- (3 / 2) :: rat\<rceil> = - 1" "\<lfloor>- (3 / 2) :: rat\<rfloor> = - 2"
  by code_simp+

lemma demo_parse_fraction:
  "FromJSON demo_lib zero_Job ''<retry fraction>'' =
     Inr (zero_Job\<lparr>Type := ''Echo'', Args := Some [DFloat 1, DFloat 2], ID := ''a'',
            Retry := DFloat (- 3 / 2), MaxRetries := - 1\<rparr>)"
  by (simp add: FromJSON_def demo_texts retry_fraction_def set_member_tags decode_iface_def
      f64_parse_small f64_to_int_def go_truncate_def floor_ceiling_example)

text \<open>
  The claim as stated (the floor of every numeric value) fails at \<open>"retry": -1.5\<close>: the
  envelope is accepted, the floor is \<open>-2\<close>, and \<open>max_retries\<close> is \<open>-1\<close>.
\<close>

theorem FromJSON_floor_counterexample:
  "FromJSON demo_lib zero_Job ''<retry fraction>'' =
     Inr (zero_Job\<lparr>Type := ''Echo'', Args := Some [DFloat 1, DFloat 2], ID := ''a'',
            Retry := DFloat (- 3 / 2), MaxRetries := - 1\<rparr>)
   \<and> json_parse demo_lib ''<retry fraction>'' = Inr retry_fraction
   \<and> wire_retry retry_fraction = Some (JFrac (- 3 / 2))
   \<and> \<lfloor>- 3 / 2 :: rat\<rfloor> = - 2
   \<and> sint (- 1 :: go_int) = - 1"
  using demo_parse_fraction demo_texts(2) demo_wire_retry(2) floor_ceiling_example(2)
  by simp

subsection \<open>Job codec: round trip\<close>

lemma those_map_Some:
  "(\<And>x. x \<in> set xs \<Longrightarrow> f x = Some (g x)) \<Longrightarrow> those (map f xs) = Some (map g xs)"
  by (induction xs) auto

lemma to_of_dyn: "dyn_ok d \<Longrightarrow> to_dyn (of_dyn d) = Some d"
proof (induction d rule: of_dyn.induct)
  case (3 x)
  then show ?case by auto
next
  case (5 xs)
  have "those (map to_dyn (map of_dyn xs)) = Some (map id xs)"
    unfolding map_map
    by (rule those_map_Some) (use 5 in \<open>auto simp: list_all_iff\<close>)
  then show ?case by simp
next
  case (6 ms)
  have "those (map (\<lambda>(k, v). map_option (Pair k) (to_dyn v)) (map (\<lambda>(k, v). (k, of_dyn v)) ms))
      = Some (map id ms)"
    unfolding map_map
    by (rule those_map_Some) (use 6 in \<open>auto simp: list_all_iff\<close>)
  then show ?case by simp
qed auto

lemma decode_members_append:
  "decode_members j (xs @ ys) =
     (case decode_members j xs of Inl e \<Rightarrow> Inl e | Inr j' \<Rightarrow> decode_members j' ys)"
  by (induction xs arbitrary: j) (auto split: sum.splits)

lemma decode_args_round_trip:
  assumes "\<forall>xs. a = Some xs \<longrightarrow> list_all dyn_ok xs"
  shows "decode_slice (case a of None \<Rightarrow> JNull | Some xs \<Rightarrow> JArray (map of_dyn xs)) cur = Inr a"
proof (cases a)
  case None
  then show ?thesis by simp
next
  case (Some xs)
  with assms have "those (map to_dyn (map of_dyn xs)) = Some (map id xs)"
    unfolding map_map by (intro those_map_Some) (auto simp: list_all_iff to_of_dyn)
  with Some show ?thesis by simp
qed

lemma decode_retry_round_trip:
  "dyn_ok d \<Longrightarrow> decode_iface (of_dyn d) = Inr d"
  by (simp add: decode_iface_def to_of_dyn)

lemma sint_go_int_bounds:
  "- 9223372036854775808 \<le> sint (n :: go_int)" "sint (n :: go_int) < 9223372036854775808"
  using sint_ge [of n] sint_lt [of n] by simp_all

lemma decode_omitempty:
  "Queue j = [] \<Longrightarrow> decode_members j (omitempty ''queue'' s) = Inr (j\<lparr>Queue := s\<rparr>)"
  "ErrorMessage j = [] \<Longrightarrow>
     decode_members j (omitempty ''error_message'' s) = Inr (j\<lparr>ErrorMessage := s\<rparr>)"
  "ErrorType j = [] \<Longrightarrow>
     decode_members j (omitempty ''error_class'' s) = Inr (j\<lparr>ErrorType := s\<rparr>)"
  "RetriedAt j = [] \<Longrightarrow>
     decode_members j (omitempty ''retried_at'' s) = Inr (j\<lparr>RetriedAt := s\<rparr>)"
  "FailedAt j = [] \<Longrightarrow>
     decode_members j (omitempty ''failed_at'' s) = Inr (j\<lparr>FailedAt := s\<rparr>)"
  by (auto simp: omitempty_def set_member_tags)

lemma Unmarshal_Marshal:
  assumes "dyn_ok (Retry J)" "\<forall>xs. Args J = Some xs \<longrightarrow> list_all dyn_ok xs"
  shows "Unmarshal_Job zero_Job (Marshal_Job J) =
           Inr (J\<lparr>MaxRetries := 0, StartTime := zero_time\<rparr>)"
proof -
  have "Unmarshal_Job zero_Job (Marshal_Job J) =
      Inr (zero_Job\<lparr>Type := Type J, Args := Args J, Queue := Queue J, ID := ID J,
             Retry := Retry J, RetryCount := RetryCount J, ErrorMessage := ErrorMessage J,
             ErrorType := ErrorType J, RetriedAt := RetriedAt J, FailedAt := FailedAt J\<rparr>)"
    unfolding Marshal_Job_def
    by (simp add: decode_members_append set_member_tags decode_args_round_trip [OF assms(2)]
        decode_retry_round_trip [OF assms(1)] sint_go_int_bounds decode_omitempty zero_Job_def)
  then show ?thesis
    by (simp add: zero_Job_def)
qed

lemma Marshal_Job_transient:
  "Marshal_Job (J\<lparr>MaxRetries := m, StartTime := t\<rparr>) = Marshal_Job J"
  by (simp add: Marshal_Job_def)

lemma round_trip:
  assumes reads: "json_parse rt (json_print rt (Marshal_Job J)) = Inr (Marshal_Job J)"
    and ok: "dyn_ok (Retry J)" "\<forall>xs. Args J = Some xs \<longrightarrow> list_all dyn_ok xs"
  shows "FromJSON rt zero_Job (JSON rt J) =
           Inr (J\<lparr>MaxRetries := (case Retry J of
                                    DFloat mx \<Rightarrow> f64_to_int (conv_oor rt) mx
                                  | DBool False \<Rightarrow> 0
                                  | _ \<Rightarrow> defaultMaxRetries),
                  StartTime := zero_time\<rparr>)"
proof -
  let ?J1 = "J\<lparr>MaxRetries := 0, StartTime := zero_time\<rparr>"
  have "FromJSON rt zero_Job (JSON rt J) =
      Inr (case Retry ?J1 of
             DFloat mx \<Rightarrow> ?J1\<lparr>MaxRetries := f64_to_int (conv_oor rt) mx\<rparr>
           | DBool False \<Rightarrow> ?J1
           | _ \<Rightarrow> ?J1\<lparr>MaxRetries := defaultMaxRetries\<rparr>)"
    by (simp add: FromJSON_def JSON_def reads Unmarshal_Marshal [OF ok])
  also have "\<dots> = Inr (J\<lparr>MaxRetries := (case Retry J of
                                    DFloat mx \<Rightarrow> f64_to_int (conv_oor rt) mx
                                  | DBool False \<Rightarrow> 0
                                  | _ \<Rightarrow> defaultMaxRetries),
                  StartTime := zero_time\<rparr>)"
    by (simp split: dyn.splits bool.splits)
  finally show ?thesis .
qed

text \<open>
  Claim C6, as amended. For every job \<open>J\<close> (its dynamic values being values the decoder
  produces, and the text layer reading back the document it printed), parsing the
  serialization of \<open>J\<close> into a fresh job yields \<open>J\<close> in every persisted field, with the
  start timestamp zero and with \<open>max_retries\<close> derived anew from \<open>retry\<close>: the truncated
  number, 0 for \<open>false\<close>, 25 otherwise. So the result is \<open>J\<close> again exactly when \<open>J\<close>
  already has that \<open>max_retries\<close> and a zero start timestamp. The serialized form does not
  depend on the transient attributes \<open>max_retries\<close> and start timestamp.
\<close>

theorem codec_round_trip:
  assumes "json_parse rt (json_print rt (Marshal_Job J)) = Inr (Marshal_Job J)"
    and "dyn_ok (Retry J)" "\<forall>xs. Args J = Some xs \<longrightarrow> list_all dyn_ok xs"
    and "mr = (case Retry J of
                   DFloat mx \<Rightarrow> f64_to_int (conv_oor rt) mx
                 | DBool False \<Rightarrow> 0
                 | _ \<Rightarrow> defaultMaxRetries)"
  shows "FromJSON rt zero_Job (JSON rt J) = Inr (J\<lparr>MaxRetries := mr, StartTime := zero_time\<rparr>)
       \<and> (FromJSON rt zero_Job (JSON rt J) = Inr J
            \<longleftrightarrow> MaxRetries J = mr \<and> StartTime J = zero_time)
       \<and> JSON rt (J\<lparr>MaxRetries := m, StartTime := t\<rparr>) = JSON rt J"
proof -
  have a: "FromJSON rt zero_Job (JSON rt J) = Inr (J\<lparr>MaxRetries := mr, StartTime := zero_time\<rparr>)"
    using round_trip [OF assms(1-3)] assms(4) by simp
  have b: "J\<lparr>MaxRetries := mr, StartTime := zero_time\<rparr> = J
             \<longleftrightarrow> MaxRetries J = mr \<and> StartTime J = zero_time"
    by (cases J) auto
  show ?thesis
    using a b by (simp add: JSON_def Marshal_Job_transient)
qed

lemma demo_echo_text:
  "json_parse demo_lib (json_print demo_lib (Marshal_Job echo_job)) = Inr (Marshal_Job echo_job)"
  by code_simp

lemma demo_echo_ok:
  "dyn_ok (Retry echo_job)" "\<forall>xs. Args echo_job = Some xs \<longrightarrow> list_all dyn_ok xs"
  by (simp_all add: echo_job_def zero_Job_def f64_parse_small)

theorem codec_round_trip_witness:
  "json_parse demo_lib (json_print demo_lib (Marshal_Job echo_job)) = Inr (Marshal_Job echo_job)
   \<and> dyn_ok (Retry echo_job)
   \<and> FromJSON demo_lib zero_Job (JSON demo_lib echo_job) =
       Inr (echo_job\<lparr>MaxRetries := 25, StartTime := zero_time\<rparr>)
   \<and> JSON demo_lib (echo_job\<lparr>MaxRetries := 25, StartTime := 1\<rparr>) = JSON demo_lib echo_job"
proof -
  have "(25 :: go_int) = (case Retry echo_job of
                   DFloat mx \<Rightarrow> f64_to_int (conv_oor demo_lib) mx
                 | DBool False \<Rightarrow> 0
                 | _ \<Rightarrow> defaultMaxRetries)"
    by (simp add: echo_job_def zero_Job_def defaultMaxRetries_def)
  from codec_round_trip [where m = 25 and t = 1, OF demo_echo_text demo_echo_ok this]
  show ?thesis
    using demo_echo_text demo_echo_ok(1) by simp
qed

text \<open>
  The claim as stated (\<open>parse(serialize(J)) == J\<close>) fails for a job with only persisted
  fields set and \<open>retry = true\<close>: its \<open>max_retries\<close> is 0, that of the parsed job is 25.
\<close>

theorem codec_round_trip_counterexample:
  "MaxRetries echo_job = 0 \<and> StartTime echo_job = zero_time
   \<and> FromJSON demo_lib zero_Job (JSON demo_lib echo_job) =
       Inr (echo_job\<lparr>MaxRetries := 25, StartTime := zero_time\<rparr>)
   \<and> MaxRetries (echo_job\<lparr>MaxRetries := 25, StartTime := zero_time\<rparr>) = 25
   \<and> FromJSON demo_lib zero_Job (JSON demo_lib echo_job) \<noteq> Inr echo_job"
proof -
  have "FromJSON demo_lib zero_Job (JSON demo_lib echo_job) =
       Inr (echo_job\<lparr>MaxRetries := 25, StartTime := zero_time\<rparr>)"
    using round_trip [OF demo_echo_text demo_echo_ok]
    by (simp add: echo_job_def zero_Job_def defaultMaxRetries_def)
  moreover have "MaxRetries echo_job = 0" "StartTime echo_job = zero_time"
    by (simp_all add: echo_job_def zero_Job_def)
  moreover have "echo_job\<lparr>MaxRetries := 25, StartTime := zero_time\<rparr> \<noteq> echo_job"
    by (simp add: echo_job_def zero_Job_def)
  ultimately show ?thesis by simp
qed

subsection \<open>Bookkeeper and worker pool\<close>

lemma transactions_simps [simp]:
  "transactions [] = []"
  "transactions (Exec tx # es) = tx # transactions es"
  "transactions (Query c # es) = transactions es"
  "transactions (Report e j # es) = transactions es"
  "transactions (es @ es') = transactions es @ transactions es'"
  by (simp_all add: transactions_def)

lemma nsKey_inj [simp]: "nsKey w a = nsKey w b \<longleftrightarrow> a = b"
  by (simp add: nsKey_def)

lemma transactions_handle [simp]:
  "transactions (case r of None \<Rightarrow> [] | Some err \<Rightarrow> handleError err) = []"
  by (simp add: handleError_def split: option.splits)

lemma scheduleRetry_no_transaction [simp]:
  "transactions (snd (scheduleRetry rt w env j err)) = []"
  by (simp add: scheduleRetry_def Let_def)

text \<open>
  Claim C10. Every "finish" bookkeeping emission is one transaction: it removes the worker
  ID from \<open>workers\<close>, deletes \<open>worker:<wid>:started\<close> and \<open>worker:<wid>\<close>, increments
  \<open>stat:processed\<close> whether the job succeeded or failed, and increments \<open>stat:failed\<close> if and
  only if \<open>success\<close> is false.
\<close>

theorem logJobFinish_transaction:
  "transactions (logJobFinish w conn j wid success) =
     [[SREM (nsKey w ''workers'') wid,
       DEL (nsKey w (''worker:'' @ wid @ '':started'')),
       DEL (nsKey w (''worker:'' @ wid)),
       INCR (nsKey w ''stat:processed'')]
      @ (if success then [] else [INCR (nsKey w ''stat:failed'')])]
   \<and> (\<forall>tx. Exec tx \<in> set (logJobFinish w conn j wid success) \<longrightarrow>
         SREM (nsKey w ''workers'') wid \<in> set tx
       \<and> DEL (nsKey w (''worker:'' @ wid @ '':started'')) \<in> set tx
       \<and> DEL (nsKey w (''worker:'' @ wid)) \<in> set tx
       \<and> INCR (nsKey w ''stat:processed'') \<in> set tx
       \<and> (INCR (nsKey w ''stat:failed'') \<in> set tx \<longleftrightarrow> \<not> success))"
  by (auto simp: logJobFinish_def Let_def handleError_def split: option.splits)

theorem logJobFinish_transaction_witness:
  "transactions (logJobFinish demo_config no_error echo_job ''host:1-0'' False) =
     [[SREM ''app:workers'' ''host:1-0'',
       DEL ''app:worker:host:1-0:started'',
       DEL ''app:worker:host:1-0'',
       INCR ''app:stat:processed'',
       INCR ''app:stat:failed'']]
   \<and> transactions (logJobFinish demo_config no_error echo_job ''host:1-0'' True) =
     [[SREM ''app:workers'' ''host:1-0'',
       DEL ''app:worker:host:1-0:started'',
       DEL ''app:worker:host:1-0'',
       INCR ''app:stat:processed'']]"
  using logJobFinish_transaction [of demo_config no_error echo_job "''host:1-0''" False]
    logJobFinish_transaction [of demo_config no_error echo_job "''host:1-0''" True]
  by (simp add: nsKey_def demo_config_def)

lemma worker_step_unknown:
  assumes "\<not> die msg" "workerMapping w (Type (job msg)) = None"
  shows "worker_step rt w conn env wid msg =
           (Next, scheduleRetry rt w (retrying env) (job msg) (UnknownWorkerError (Type (job msg))))"
  using assms by (simp add: worker_step_def split: prod.splits)

lemma worker_step_known:
  assumes "\<not> die msg" "workerMapping w (Type (job msg)) = Some perform"
    and "recovered rt (perform (Args (job msg))) = Inr err"
  shows "\<exists>j' pre. worker_step rt w conn env wid msg =
           (Next, j', pre @ logJobFinish w conn j' wid (err = None))"
  using assms
  by (auto simp: worker_step_def logJobStart_def Let_def split: prod.splits option.splits)

text \<open>
  Claim C4, as amended. For every job message a runner receives whose class has a
  registered handler, once the handler step has produced its result \<open>err\<close> (the handler
  returned, or it panicked with a string or an error), the runner's last effects are the
  "finish" bookkeeping with \<open>success = (err == nil)\<close>. When the class has no registered
  handler, the job enters the Retry Engine with an \<open>UnknownWorkerError\<close> and the runner
  goes on to the next message: it emits no bookkeeping transaction, neither "start" nor
  "finish".
\<close>

theorem worker_step_bookkeeping:
  assumes "\<not> die msg"
  shows "(\<forall>perform err.
            workerMapping w (Type (job msg)) = Some perform
            \<and> recovered rt (perform (Args (job msg))) = Inr err \<longrightarrow>
            (\<exists>j' pre. worker_step rt w conn env wid msg =
               (Next, j', pre @ logJobFinish w conn j' wid (err = None))))
       \<and> (workerMapping w (Type (job msg)) = None \<longrightarrow>
            worker_step rt w conn env wid msg =
              (Next, scheduleRetry rt w (retrying env) (job msg)
                       (UnknownWorkerError (Type (job msg))))
            \<and> transactions (snd (snd (worker_step rt w conn env wid msg))) = [])"
  using worker_step_known [OF assms] worker_step_unknown [OF assms]
  by (auto simp del: split_paired_Ex)

lemma demo_echo:
  "\<not> die \<lparr>job = echo_job, die = False\<rparr>"
  "workerMapping demo_config (Type (job \<lparr>job = echo_job, die = False\<rparr>)) =
     Some (\<lambda>args. Returns (Some boom))"
  "recovered demo_lib (Returns (Some boom)) = Inr (Some boom)"
  by (simp_all add: demo_config_def echo_job_def zero_Job_def recovered_def)

theorem worker_step_bookkeeping_witness:
  "\<not> die \<lparr>job = echo_job, die = False\<rparr>
   \<and> workerMapping demo_config (Type (job \<lparr>job = echo_job, die = False\<rparr>)) =
       Some (\<lambda>args. Returns (Some boom))
   \<and> recovered demo_lib (Returns (Some boom)) = Inr (Some boom)
   \<and> (\<exists>j' pre. worker_step demo_lib demo_config no_error demo_env ''host:1-0''
                  \<lparr>job = echo_job, die = False\<rparr> =
               (Next, j', pre @ logJobFinish demo_config no_error j' ''host:1-0'' False))"
proof -
  from worker_step_bookkeeping [OF demo_echo(1), of demo_config demo_lib no_error demo_env "''host:1-0''"]
  have "\<exists>j' pre. worker_step demo_lib demo_config no_error demo_env ''host:1-0''
                  \<lparr>job = echo_job, die = False\<rparr> =
               (Next, j', pre @ logJobFinish demo_config no_error j' ''host:1-0'' (Some boom = None))"
    using demo_echo(2,3) by blast
  then show ?thesis
    using demo_echo by simp
qed

lemma demo_missing_retry:
  "scheduleRetry demo_lib demo_config demo_retry_env missing_job (UnknownWorkerError ''Missing'') =
     (missing_job\<lparr>FailedAt := ''2023-11-14 22:13:20 UTC'',
        ErrorType := ''gokiq.UnknownWorkerError'',
        ErrorMessage := ''gokiq: Unknown worker type: Missing''\<rparr>,
      [Report (UnknownWorkerError ''Missing'') (Some missing_job),
       Query (ZADD ''app:retry'' 1700000015 ''null'')])"
  by code_simp

lemma demo_missing:
  "\<not> die \<lparr>job = missing_job, die = False\<rparr>"
  "workerMapping demo_config (Type (job \<lparr>job = missing_job, die = False\<rparr>)) = None"
  "Type missing_job = ''Missing''"
  by (simp_all add: demo_config_def missing_job_def zero_Job_def)

text \<open>
  The claim as stated (every message, the unknown class included, ends with "finish"
  bookkeeping) fails for a job of the unregistered class \<open>Missing\<close>: the runner reports
  the error, writes the job to \<open>retry\<close>, and sends no transaction at all.
\<close>

theorem worker_step_unknown_counterexample:
  "workerMapping demo_config (Type missing_job) = None
   \<and> worker_step demo_lib demo_config no_error demo_env ''host:1-0''
       \<lparr>job = missing_job, die = False\<rparr> =
     (Next,
      missing_job\<lparr>FailedAt := ''2023-11-14 22:13:20 UTC'',
        ErrorType := ''gokiq.UnknownWorkerError'',
        ErrorMessage := ''gokiq: Unknown worker type: Missing''\<rparr>,
      [Report (UnknownWorkerError ''Missing'') (Some missing_job),
       Query (ZADD ''app:retry'' 1700000015 ''null'')])
   \<and> transactions
       [Report (UnknownWorkerError ''Missing'') (Some missing_job),
        Query (ZADD ''app:retry'' 1700000015 ''null'')] = []"
  using worker_step_unknown [OF demo_missing(1,2), of demo_lib no_error demo_env "''host:1-0''"]
    demo_missing demo_missing_retry
  by (simp add: demo_env_def)

lemma demo_print_running:
  "json_print demo_lib (runningJob q j t) = ''null''"
  by (simp add: demo_lib_def table_lib_def runningJob_def retry_three_def retry_fraction_def
      mail_envelope_def Marshal_Job_def)

lemma demo_crash_start:
  "logJobStart demo_lib demo_config no_error (starting demo_env) crash_job ''host:1-0'' =
     (crash_job\<lparr>StartTime := 1699999999000000000\<rparr>,
      [Exec [SADD ''app:workers'' ''host:1-0'',
             SETEX ''app:worker:host:1-0:started'' 86400 ''2023-11-14 22:13:20 +0000 UTC'',
             SETEX ''app:worker:host:1-0'' 86400 ''null'']])"
  by (simp add: logJobStart_def Let_def demo_print_running demo_env_def nsKey_def
      demo_config_def keyExpiry_def no_error_def)
    (simp add: demo_lib_def table_lib_def)

text \<open>
  Claim C5 (the code departs from it). A handler that panics with a value that is neither
  a string nor an error, such as \<open>panic(42)\<close>: the type assertion in \<open>panicToError\<close> panics
  inside the deferred function, nothing recovers it, and the runner stops after the
  "start" bookkeeping, reaching neither the Retry Engine nor the "finish" bookkeeping.
\<close>

theorem panicToError_other_value:
  "panicToError rt POther = Inl TypeAssertion
   \<and> recovered rt (Panics POther) = Inl TypeAssertion
   \<and> worker_step demo_lib demo_config no_error demo_env ''host:1-0''
       \<lparr>job = crash_job, die = False\<rparr> =
     (Abort TypeAssertion,
      crash_job\<lparr>StartTime := 1699999999000000000\<rparr>,
      [Exec [SADD ''app:workers'' ''host:1-0'',
             SETEX ''app:worker:host:1-0:started'' 86400 ''2023-11-14 22:13:20 +0000 UTC'',
             SETEX ''app:worker:host:1-0'' 86400 ''null'']])"
proof -
  have m: "workerMapping demo_config (Type crash_job) = Some (\<lambda>args. Panics POther)"
    by (simp add: demo_config_def crash_job_def zero_Job_def)
  have r: "recovered rt' (Panics POther) = Inl TypeAssertion" for rt'
    by (simp add: panicToError_def recovered_def)
  have "worker_step demo_lib demo_config no_error demo_env ''host:1-0''
       \<lparr>job = crash_job, die = False\<rparr> =
     (Abort TypeAssertion,
      crash_job\<lparr>StartTime := 1699999999000000000\<rparr>,
      [Exec [SADD ''app:workers'' ''host:1-0'',
             SETEX ''app:worker:host:1-0:started'' 86400 ''2023-11-14 22:13:20 +0000 UTC'',
             SETEX ''app:worker:host:1-0'' 86400 ''null'']])"
    by (simp add: worker_step_def m r demo_crash_start)
  then show ?thesis
    by (simp add: panicToError_def r)
qed

subsection \<open>Scheduler\<close>

lemma fold_queue_step_Inl: "fold queue_step ms (Inl e) = Inl e"
  by (induction ms) (simp_all add: queue_step_def)

lemma decode_string_Inr:
  "decode_string v cur = Inr s \<Longrightarrow> (v = JNull \<and> s = cur) \<or> v = JString s"
  by (cases v) auto

lemma fold_queue_step_last:
  assumes "fold queue_step ms (Inr q0) = Inr q"
  shows "case wire_member ''queue'' ms of
           None \<Rightarrow> q = q0
         | Some v \<Rightarrow> v = JString q \<or> v = JNull"
  using assms
proof (induction ms arbitrary: q0)
  case Nil
  then show ?case by (simp add: wire_member_def)
next
  case (Cons kv ms)
  show ?case
  proof (cases "queue_step kv (Inr q0)")
    case (Inl e)
    with Cons.prems show ?thesis by (simp add: fold_queue_step_Inl)
  next
    case (Inr q1)
    with Cons.prems have f: "fold queue_step ms (Inr q1) = Inr q" by simp
    note ih = Cons.IH [OF f]
    show ?thesis
    proof (cases "wire_member ''queue'' ms")
      case (Some v)
      with ih show ?thesis by (simp add: wire_member_Cons)
    next
      case None
      with ih have q: "q = q1" by simp
      show ?thesis
      proof (cases "key_is (fst kv) ''queue''")
        case True
        with Inr have "decode_string (snd kv) q0 = Inr q1" by (simp add: queue_step_def)
        from decode_string_Inr [OF this] True None q show ?thesis
          by (auto simp: wire_member_Cons)
      next
        case False
        with Inr None q show ?thesis by (simp add: wire_member_Cons queue_step_def)
      qed
    qed
  qed
qed

lemma Unmarshal_queue_object:
  "json_parse rt data = Inr (JObject ms) \<Longrightarrow>
   Unmarshal_queue rt data = fold queue_step ms (Inr [])"
  unfolding Unmarshal_queue_def by simp

lemma promote_member:
  assumes "msg \<in> set msgs" "Unmarshal_queue rt msg = Inr q"
  shows "Exec [SADD (nsKey w ''queues'') q, RPUSH (nsKey w (''queue:'' @ q)) msg]
           \<in> set (promote rt w conn msgs)"
  using assms by (induction msgs) (auto simp: Let_def)

lemma promote_only:
  assumes "Exec tx \<in> set (promote rt w conn msgs)"
  shows "\<exists>m q. m \<in> set msgs \<and> Unmarshal_queue rt m = Inr q \<and>
           tx = [SADD (nsKey w ''queues'') q, RPUSH (nsKey w (''queue:'' @ q)) m]"
  using assms
  by (induction msgs) (auto simp: Let_def handleError_def split: sum.splits option.splits)

text \<open>
  Claim C9. For every well-formed envelope among those the scheduler fetched from the
  \<open>retry\<close> or \<open>schedule\<close> set (its decoding succeeds, with queue name \<open>q\<close>), the scheduler
  sends one transaction that adds \<open>q\<close> to the \<open>queues\<close> set and pushes (\<open>RPUSH\<close>) onto
  \<open>queue:q\<close> the very bytes it fetched; it sends no other transaction, so nothing
  re-serialized is ever pushed; and \<open>q\<close> is the envelope's own \<open>queue\<close> field.
\<close>

theorem promote_verbatim:
  assumes "msg \<in> set msgs" and "Unmarshal_queue rt msg = Inr q"
  shows "Exec [SADD (nsKey w ''queues'') q, RPUSH (nsKey w (''queue:'' @ q)) msg]
           \<in> set (promote rt w conn msgs)
       \<and> (\<forall>tx. Exec tx \<in> set (promote rt w conn msgs) \<longrightarrow>
             (\<exists>m q'. m \<in> set msgs \<and> Unmarshal_queue rt m = Inr q' \<and>
                tx = [SADD (nsKey w ''queues'') q', RPUSH (nsKey w (''queue:'' @ q')) m]))
       \<and> (\<forall>ms s. json_parse rt msg = Inr (JObject ms)
                  \<and> wire_member ''queue'' ms = Some (JString s) \<longrightarrow> q = s)"
proof -
  have "q = s"
    if "json_parse rt msg = Inr (JObject ms)" "wire_member ''queue'' ms = Some (JString s)"
    for ms s
  proof -
    from that(1) assms(2) have "fold queue_step ms (Inr []) = Inr q"
      by (simp add: Unmarshal_queue_object)
    from fold_queue_step_last [OF this] that(2) show ?thesis by simp
  qed
  then show ?thesis
    using promote_member [OF assms] promote_only [of _ rt w conn msgs] by blast
qed

lemma demo_mail:
  "Unmarshal_queue demo_lib ''<mail envelope>'' = Inr ''mail''"
  "wire_member ''queue'' [(''class'', JString ''Echo''), (''args'', JArray []),
     (''queue'', JString ''mail''), (''jid'', JString ''d''), (''retry'', JBool True),
     (''unknown_key'', JString ''kept'')] = Some (JString ''mail'')"
  by code_simp+

theorem promote_verbatim_witness:
  "''<mail envelope>'' \<in> set [''<garbage>'', ''<mail envelope>'']
   \<and> Unmarshal_queue demo_lib ''<mail envelope>'' = Inr ''mail''
   \<and> Exec [SADD (nsKey demo_config ''queues'') ''mail'',
            RPUSH (nsKey demo_config (''queue:'' @ ''mail'')) ''<mail envelope>'']
        \<in> set (promote demo_lib demo_config no_error [''<garbage>'', ''<mail envelope>''])"
proof -
  have m: "''<mail envelope>'' \<in> set [''<garbage>'', ''<mail envelope>'']" by simp
  from promote_verbatim [OF m demo_mail(1), of demo_config no_error] m demo_mail(1)
  show ?thesis by blast
qed

subsection \<open>Dispatcher: the queue list\<close>

lemma unique_queues_ok:
  assumes "\<forall>i \<in> set idx. i < length rq" "distinct res"
  shows "\<exists>res'. unique_queues rq idx res = Inr res' \<and> distinct res'
           \<and> set res' \<subseteq> set res \<union> set rq
           \<and> length res' \<le> length res + length idx
           \<and> (res \<noteq> [] \<or> idx \<noteq> [] \<longrightarrow> res' \<noteq> [])"
  using assms
proof (induction idx arbitrary: res)
  case Nil
  then show ?case by simp
next
  case (Cons i idx)
  let ?res1 = "if rq ! i \<in> set res then res else res @ [rq ! i]"
  have i: "i < length rq" using Cons.prems by simp
  have d: "distinct ?res1" using Cons.prems by simp
  have ne: "?res1 \<noteq> []" by auto
  from Cons.prems have "\<forall>i \<in> set idx. i < length rq" by simp
  from Cons.IH [OF this d] obtain res' where r:
    "unique_queues rq idx ?res1 = Inr res'" "distinct res'"
    "set res' \<subseteq> set ?res1 \<union> set rq" "length res' \<le> length ?res1 + length idx"
    "?res1 \<noteq> [] \<or> idx \<noteq> [] \<longrightarrow> res' \<noteq> []"
    by blast
  have "unique_queues rq (i # idx) res = Inr res'"
    using i r(1) by (simp add: Let_def)
  moreover have "set res' \<subseteq> set res \<union> set rq"
    using r(3) i by (auto split: if_splits)
  moreover have "length res' \<le> length res + length (i # idx)"
    using r(4) by (auto split: if_splits)
  moreover have "res' \<noteq> []" using r(5) ne by blast
  ultimately show ?case using r(2) by blast
qed

lemma length_denormalized:
  assumes "\<forall>(queue, x) \<in> set qs. 0 < sint x"
  shows "length qs \<le>
    length (concat (map (\<lambda>(queue, x). replicate (nat (sint (x :: go_int))) (f queue)) qs))"
  using assms
proof (induction qs)
  case Nil
  then show ?case by simp
next
  case (Cons a qs)
  obtain queue x where a: "a = (queue, x)" by (cases a)
  with Cons.prems have "0 < sint x" by simp
  then have "1 \<le> nat (sint x)" by linarith
  with Cons show ?case by (simp add: a)
qed

lemma set_denormalized:
  "set (concat (map (\<lambda>(queue, x). replicate (nat (sint (x :: go_int))) (f queue)) qs))
     \<subseteq> f ` fst ` set qs"
  by (induction qs) (auto split: prod.splits)

text \<open>
  Claim C8, as amended. When every configured weight is positive, then for every draw of
  random indices (every permutation of the indices of the denormalized list) the
  dispatcher's queue list exists, contains at most one entry per queue name, every entry
  is the namespaced key of a configured queue, its length is at most the number of
  configured queues, and it is non-empty whenever at least one queue is configured.
\<close>

theorem queueList_unique:
  assumes weights: "\<forall>(queue, x) \<in> set (Queues w0). 0 < sint x"
    and start: "randomQueues w0 = []"
    and w: "w = denormalizeQueues w0"
    and perm: "distinct perm" "set perm = {0 ..< length (randomQueues w)}"
  shows "\<exists>res. queueList w perm = Inr res
           \<and> distinct res
           \<and> set res \<subseteq> queue_key w ` fst ` set (Queues w)
           \<and> length res \<le> length (Queues w)
           \<and> (Queues w \<noteq> [] \<longrightarrow> res \<noteq> [])"
proof -
  let ?rq = "randomQueues w"
  let ?size = "length (Queues w)"
  have q: "Queues w = Queues w0" and ns: "nsKey w = nsKey w0"
    by (simp_all add: w denormalizeQueues_def nsKey_def fun_eq_iff)
  have rq: "?rq = concat (map (\<lambda>(queue, x). replicate (nat (sint x)) (queue_key w0 queue))
                            (Queues w0))"
    by (simp add: w denormalizeQueues_def start queue_key_def)
  have lp: "length perm = length ?rq"
    using perm distinct_card [of perm] by simp
  have le: "?size \<le> length perm"
    unfolding lp q rq by (rule length_denormalized [OF weights])
  have sub: "set ?rq \<subseteq> queue_key w ` fst ` set (Queues w)"
    unfolding q rq using set_denormalized [of "queue_key w0" "Queues w0"]
    by (simp add: queue_key_def ns)
  have idx: "\<forall>i \<in> set (take ?size perm). i < length ?rq"
    using perm(2) by (auto dest: in_set_takeD)
  from unique_queues_ok [OF idx, of "[]"] obtain res where r:
    "unique_queues ?rq (take ?size perm) [] = Inr res" "distinct res"
    "set res \<subseteq> set ?rq" "length res \<le> length (take ?size perm)"
    "take ?size perm \<noteq> [] \<longrightarrow> res \<noteq> []"
    by auto
  have "queueList w perm = Inr res"
    using le r(1) by (simp add: queueList_def Let_def)
  moreover have "length res \<le> ?size" using r(4) by simp
  moreover have "Queues w \<noteq> [] \<longrightarrow> res \<noteq> []"
    using r(5) le by auto
  ultimately show ?thesis using r(2,3) sub by blast
qed

lemma demo_queues:
  "\<forall>(queue, x) \<in> set (Queues demo_config). 0 < sint x"
  "randomQueues demo_config = []"
  "randomQueues (denormalizeQueues demo_config) =
     [''app:queue:default'', ''app:queue:default'', ''app:queue:mail'']"
  "queueList (denormalizeQueues demo_config) [2, 0, 1] =
     Inr [''app:queue:mail'', ''app:queue:default'']"
  by (simp_all add: demo_config_def denormalizeQueues_def nsKey_def queueList_def
      numeral_2_eq_2)

theorem queueList_unique_witness:
  "distinct [2, 0, 1 :: nat]
   \<and> set [2, 0, 1] = {0 ..< length (randomQueues (denormalizeQueues demo_config))}
   \<and> queueList (denormalizeQueues demo_config) [2, 0, 1] =
       Inr [''app:queue:mail'', ''app:queue:default'']
   \<and> (\<exists>res. queueList (denormalizeQueues demo_config) [2, 0, 1] = Inr res
           \<and> distinct res
           \<and> length res \<le> length (Queues (denormalizeQueues demo_config))
           \<and> res \<noteq> [])"
proof -
  have p: "distinct [2, 0, 1 :: nat]"
    "set [2, 0, 1] = {0 ..< length (randomQueues (denormalizeQueues demo_config))}"
    by (auto simp: demo_queues(3))
  have n: "Queues (denormalizeQueues demo_config) \<noteq> []"
    by (simp add: denormalizeQueues_def demo_config_def)
  from queueList_unique [OF demo_queues(1,2) refl p] n p demo_queues(4)
  show ?thesis by auto
qed

text \<open>
  The claim as stated (non-empty whenever a queue is configured) fails for the
  configuration with the single queue \<open>default\<close> of weight 0: nothing is denormalized,
  the only permutation is the empty one, and slicing it to one element panics.
\<close>

theorem queueList_zero_weight_counterexample:
  "Queues (denormalizeQueues zero_weight_config) = [(''default'', 0)]
   \<and> randomQueues (denormalizeQueues zero_weight_config) = []
   \<and> queueList (denormalizeQueues zero_weight_config) [] = Inl SliceBounds"
  by (simp add: zero_weight_config_def demo_config_def denormalizeQueues_def queueList_def)

end
